theory Spec2Isabelle
  imports Main "HOL-Library.Word"
begin

section \<open>JavaScript strings\<close>

text \<open>
  A JavaScript string is a sequence of UTF-16 code units; \<open>indexOf\<close>, \<open>substring\<close>,
  \<open>slice\<close>, \<open>trim\<close> and \<open>length\<close> all count code units. String literals of the
  source are ASCII and are written through \<open>js\<close>.
\<close>

type_synonym code_unit = "16 word"
type_synonym jsstring = "code_unit list"

definition js :: "string \<Rightarrow> jsstring" where
  "js s = map of_char s"

text \<open>
  \<open>indexOf(pat)\<close>: the least index at which \<open>pat\<close> occurs, or \<open>-1\<close>.
\<close>

fun indexOf_from :: "jsstring \<Rightarrow> jsstring \<Rightarrow> nat \<Rightarrow> int" where
  "indexOf_from pat [] k = (if pat = [] then int k else -1)"
| "indexOf_from pat (c # cs) k =
     (if take (length pat) (c # cs) = pat then int k else indexOf_from pat cs (Suc k))"

definition indexOf :: "jsstring \<Rightarrow> jsstring \<Rightarrow> int" where
  "indexOf s pat = indexOf_from pat s 0"

text \<open>
  \<open>lastIndexOf(pat)\<close>: the greatest index at which \<open>pat\<close> occurs, or \<open>-1\<close>.
\<close>

fun lastIndexOf_from :: "jsstring \<Rightarrow> jsstring \<Rightarrow> nat \<Rightarrow> int \<Rightarrow> int" where
  "lastIndexOf_from pat [] k found = (if pat = [] then int k else found)"
| "lastIndexOf_from pat (c # cs) k found =
     lastIndexOf_from pat cs (Suc k)
       (if take (length pat) (c # cs) = pat then int k else found)"

definition lastIndexOf :: "jsstring \<Rightarrow> jsstring \<Rightarrow> int" where
  "lastIndexOf s pat = lastIndexOf_from pat s 0 (-1)"

text \<open>
  \<open>substring(start, end)\<close> clamps both arguments to \<open>[0, length]\<close> and swaps them when
  \<open>start > end\<close>; with one argument the end is the length. So \<open>substring(-1)\<close> is the
  whole string.
\<close>

definition clamp_index :: "int \<Rightarrow> nat \<Rightarrow> nat" where
  "clamp_index i len = nat (min (max i 0) (int len))"

definition substring :: "jsstring \<Rightarrow> int \<Rightarrow> int \<Rightarrow> jsstring" where
  "substring s start stop =
     (let a = clamp_index start (length s);
          b = clamp_index stop (length s);
          lo = min a b;
          hi = max a b
      in take (hi - lo) (drop lo s))"

definition substring_from :: "jsstring \<Rightarrow> int \<Rightarrow> jsstring" where
  "substring_from s start = substring s start (int (length s))"

text \<open>
  \<open>slice(start)\<close> counts a negative \<open>start\<close> from the end of the string.
\<close>

definition slice_from :: "jsstring \<Rightarrow> int \<Rightarrow> jsstring" where
  "slice_from s start =
     (let len = int (length s);
          lo = (if start < 0 then max (len + start) 0 else min start len)
      in drop (nat lo) s)"

text \<open>
  \<open>trim()\<close> removes the white space and line terminators of ECMAScript from both ends:
  TAB, LF, VT, FF, CR, SP, NBSP, the byte-order mark U+FEFF, the line and paragraph
  separators and the space separators of Unicode.
\<close>

definition is_ws :: "code_unit \<Rightarrow> bool" where
  "is_ws c \<longleftrightarrow>
     c \<in> {0x9, 0xA, 0xB, 0xC, 0xD, 0x20, 0xA0, 0x1680, 0x2028, 0x2029, 0x202F, 0x205F,
          0x3000, 0xFEFF}
     \<or> (0x2000 \<le> c \<and> c \<le> 0x200A)"

definition trim :: "jsstring \<Rightarrow> jsstring" where
  "trim s = rev (dropWhile is_ws (rev (dropWhile is_ws s)))"

text \<open>Decimal rendering of an integer, as \<open>Number.prototype.toString\<close> gives it.\<close>

fun show_nat :: "nat \<Rightarrow> jsstring" where
  "show_nat n =
     (if n < 10 then [of_nat (48 + n)]
      else show_nat (n div 10) @ [of_nat (48 + n mod 10)])"

declare show_nat.simps [simp del]

definition show_int :: "int \<Rightarrow> jsstring" where
  "show_int i = (if i < 0 then js ''-'' @ show_nat (nat (- i)) else show_nat (nat i))"

section \<open>JavaScript values\<close>

text \<open>
  The values that \<open>JSON.parse\<close> produces and \<open>res.json\<close> serialises. A number is kept as
  its \<open>Number.prototype.toString\<close> rendering, which fixes the number up to the sign of
  zero; the handlers only ever test a number for truthiness or turn it into a string.
  An object is the list of its own properties, each key once. \<open>undefined\<close> is not a
  JSON value: a value that may be \<open>undefined\<close> has type \<open>json option\<close>.
\<close>

datatype json =
    JNull
  | JBool bool
  | JNumber jsstring
  | JString jsstring
  | JArray "json list"
  | JObject "(jsstring \<times> json) list"

text \<open>An error object, with the three properties the handlers read from it.\<close>

datatype js_error =
  Thrown (message: jsstring) (code: "json option") (etype: "json option")

text \<open>
  \<open>new Error(msg)\<close>, and the errors the engine raises itself. The messages of the
  latter are the engine's own wording, given here without the quotation marks V8 puts
  around a property name.
\<close>

definition Error :: "jsstring \<Rightarrow> js_error" where
  "Error msg = Thrown msg None None"

definition TypeError :: "jsstring \<Rightarrow> js_error" where
  "TypeError msg = Thrown msg None None"

text \<open>Truthiness: \<open>null\<close>, \<open>false\<close>, \<open>0\<close>, \<open>NaN\<close>, \<open>""\<close> and \<open>undefined\<close> are falsy.\<close>

fun truthy :: "json \<Rightarrow> bool" where
  "truthy JNull = False"
| "truthy (JBool b) = b"
| "truthy (JNumber n) = (n \<noteq> js ''0'' \<and> n \<noteq> js ''NaN'')"
| "truthy (JString s) = (s \<noteq> [])"
| "truthy (JArray xs) = True"
| "truthy (JObject kvs) = True"

definition falsy :: "json option \<Rightarrow> bool" where
  "falsy v = (case v of None \<Rightarrow> True | Some x \<Rightarrow> \<not> truthy x)"

definition isArray :: "json option \<Rightarrow> bool" where
  "isArray v = (case v of Some (JArray xs) \<Rightarrow> True | _ \<Rightarrow> False)"

text \<open>
  Reading a property. On \<open>undefined\<close> and \<open>null\<close> the read throws a TypeError. The names
  the handlers read (\<open>prompt\<close>, \<open>regions\<close>, \<open>lines\<close>, \<open>words\<close>, \<open>text\<close>,
  \<open>translations\<close>) are not properties of any built-in prototype, so on an array, a
  string, a number or a boolean the read gives \<open>undefined\<close>, and on an object it gives the
  own property of that name.
\<close>

definition get_field :: "json \<Rightarrow> jsstring \<Rightarrow> json option" where
  "get_field v name = (case v of JObject kvs \<Rightarrow> map_of kvs name | _ \<Rightarrow> None)"

definition read_field :: "json option \<Rightarrow> jsstring \<Rightarrow> js_error + json option" where
  "read_field v name =
     (case v of
        None \<Rightarrow>
          Inl (TypeError (js ''Cannot read properties of undefined (reading '' @ name @ js '')''))
      | Some JNull \<Rightarrow>
          Inl (TypeError (js ''Cannot read properties of null (reading '' @ name @ js '')''))
      | Some x \<Rightarrow> Inr (get_field x name))"

text \<open>
  \<open>v[0]\<close> on a value that is neither \<open>undefined\<close> nor \<open>null\<close>: the first element of an
  array, the first code unit of a string, the property \<open>"0"\<close> of an object.
\<close>

definition index0 :: "json \<Rightarrow> json option" where
  "index0 v =
     (case v of
        JArray xs \<Rightarrow> (case xs of [] \<Rightarrow> None | x # _ \<Rightarrow> Some x)
      | JString s \<Rightarrow> (case s of [] \<Rightarrow> None | c # _ \<Rightarrow> Some (JString [c]))
      | JObject kvs \<Rightarrow> map_of kvs (js ''0'')
      | _ \<Rightarrow> None)"

text \<open>
  Sequencing of steps that may throw: the first error ends the sequence.
\<close>

definition and_then :: "js_error + 'a \<Rightarrow> ('a \<Rightarrow> js_error + 'b) \<Rightarrow> js_error + 'b" where
  "and_then r f = (case r of Inl err \<Rightarrow> Inl err | Inr x \<Rightarrow> f x)"

text \<open>
  Conversion to a string. An array is its elements joined with commas, where \<open>null\<close>
  contributes the empty string; an object is \<open>[object Object]\<close>. The conversion of an
  object goes through its \<open>toString\<close> property: an object with an own property of that
  name (never a function in a JSON value) cannot be converted, and the attempt throws a
  TypeError.
\<close>

fun convertible :: "json \<Rightarrow> bool" where
  "convertible (JObject kvs) = (map_of kvs (js ''toString'') = None)"
| "convertible (JArray xs) = list_all convertible xs"
| "convertible v = True"

fun intersperse :: "jsstring \<Rightarrow> jsstring list \<Rightarrow> jsstring" where
  "intersperse sep [] = []"
| "intersperse sep [x] = x"
| "intersperse sep (x # y # ys) = x @ sep @ intersperse sep (y # ys)"

fun ToString :: "json \<Rightarrow> jsstring" where
  "ToString JNull = js ''null''"
| "ToString (JBool b) = (if b then js ''true'' else js ''false'')"
| "ToString (JNumber n) = n"
| "ToString (JString s) = s"
| "ToString (JArray xs) =
     intersperse (js '','') (map (\<lambda>x. if x = JNull then [] else ToString x) xs)"
| "ToString (JObject kvs) = js ''[object Object]''"

text \<open>
  \<open>Array.prototype.join\<close>: an element that is \<open>undefined\<close> or \<open>null\<close> contributes the
  empty string, any other element its conversion to a string.
\<close>

definition element_convertible :: "json option \<Rightarrow> bool" where
  "element_convertible v = (case v of None \<Rightarrow> True | Some x \<Rightarrow> convertible x)"

definition element_string :: "json option \<Rightarrow> jsstring" where
  "element_string v =
     (case v of None \<Rightarrow> [] | Some x \<Rightarrow> if x = JNull then [] else ToString x)"

definition join :: "json option list \<Rightarrow> jsstring \<Rightarrow> js_error + jsstring" where
  "join xs sep =
     (if list_all element_convertible xs then Inr (intersperse sep (map element_string xs))
      else Inl (TypeError (js ''Cannot convert object to primitive value'')))"

text \<open>\<open>v.toString()\<close> on a value of unknown type.\<close>

definition toString :: "json \<Rightarrow> js_error + jsstring" where
  "toString v =
     (case v of
        JNull \<Rightarrow> Inl (TypeError (js ''Cannot read properties of null (reading toString)''))
      | JObject kvs \<Rightarrow>
          if convertible v then Inr (ToString v)
          else Inl (TypeError (js ''toString is not a function''))
      | _ \<Rightarrow>
          if convertible v then Inr (ToString v)
          else Inl (TypeError (js ''Cannot convert object to primitive value'')))"

section \<open>HTTP responses\<close>

text \<open>
  The handlers are modelled from the point where a request has passed the rate limiter
  and the body parser. A response is its status code and the value sent with it as JSON.
\<close>

record response =
  status :: nat
  body :: json

text \<open>\<open>res.status(code).json(value)\<close>; \<open>res.json(value)\<close> alone sends status 200.\<close>

definition respond :: "nat \<Rightarrow> json \<Rightarrow> response" where
  "respond st b = \<lparr>status = st, body = b\<rparr>"

text \<open>
  \<open>JSON.stringify\<close> leaves out a property whose value is \<open>undefined\<close>.
\<close>

fun object_of :: "(jsstring \<times> json option) list \<Rightarrow> (jsstring \<times> json) list" where
  "object_of [] = []"
| "object_of ((k, None) # kvs) = object_of kvs"
| "object_of ((k, Some v) # kvs) = (k, v) # object_of kvs"

text \<open>
  The last middleware of the application, reached when a middleware before it throws.
\<close>

definition error_middleware :: "js_error \<Rightarrow> response" where
  "error_middleware err =
     respond 500 (JObject [(js ''error'', JString (js ''Something went wrong!''))])"

section \<open>Start-up check of the required environment variables\<close>

text \<open>
  \<open>process.env\<close> maps a variable name to a string, or to \<open>undefined\<close> when the variable is
  not set. Both \<open>undefined\<close> and the empty string are falsy, so \<open>!process.env[key]\<close> holds
  for either.
\<close>

type_synonym environment = "jsstring \<Rightarrow> jsstring option"

datatype port = EnvPort jsstring | DefaultPort nat

datatype process_event =
    ConsoleError jsstring
  | ProcessExit nat
  | Listen port

definition requiredEnvVars :: "jsstring list" where
  "requiredEnvVars =
     [js ''ANTHROPIC_API_KEY'',
      js ''AZURE_STORAGE_ACCOUNT_NAME'',
      js ''AZURE_STORAGE_ACCOUNT_KEY'',
      js ''AZURE_CONTAINER_NAME'']"

definition env_falsy :: "jsstring option \<Rightarrow> bool" where
  "env_falsy v = (case v of None \<Rightarrow> True | Some s \<Rightarrow> s = [])"

text \<open>
  The \<open>forEach\<close> over \<open>requiredEnvVars\<close>: \<open>process.exit(1)\<close> ends the process inside the
  callback, so the keys after the first falsy one are never looked at. The result is the
  first key that fails the test, if any.
\<close>

fun first_missing :: "environment \<Rightarrow> jsstring list \<Rightarrow> jsstring option" where
  "first_missing env [] = None"
| "first_missing env (key # keys) =
     (if env_falsy (env key) then Some key else first_missing env keys)"

text \<open>\<open>const PORT = process.env.PORT || 5000\<close>\<close>

definition PORT :: "environment \<Rightarrow> port" where
  "PORT env =
     (case env (js ''PORT'') of
        None \<Rightarrow> DefaultPort 5000
      | Some p \<Rightarrow> if p = [] then DefaultPort 5000 else EnvPort p)"

text \<open>
  The module body, as the events the operating system sees: the check comes first, the
  statements after it build the clients and register the handlers, and \<open>app.listen(PORT)\<close>
  is the last statement of the file.
\<close>

definition startup :: "environment \<Rightarrow> process_event list" where
  "startup env =
     (case first_missing env requiredEnvVars of
        Some key \<Rightarrow>
          [ConsoleError (js ''X Missing environment variable: '' @ key), ProcessExit 1]
      | None \<Rightarrow> [Listen (PORT env)])"

text \<open>Three environments used as concrete inputs below.\<close>

definition env_all_set :: environment where
  "env_all_set key = (if key \<in> set requiredEnvVars then Some (js ''secret'') else None)"

definition env_no_api_key :: environment where
  "env_no_api_key key =
     (if key = js ''ANTHROPIC_API_KEY'' then None
      else if key \<in> set requiredEnvVars then Some (js ''secret'')
      else None)"

definition env_empty_container :: environment where
  "env_empty_container key =
     (if key = js ''AZURE_CONTAINER_NAME'' then Some []
      else if key \<in> set requiredEnvVars then Some (js ''secret'')
      else None)"

section \<open>Chat relay: \<open>/ask\<close> and \<open>/test-api\<close>\<close>

text \<open>
  The argument of \<open>anthropic.messages.create\<close>; an entry of \<open>messages\<close> is a role
  with its content. The call either rejects with an error or resolves with a message; the
  handlers read only \<open>message.content\<close>, which is what the upstream function of the
  model returns.
\<close>

record chat_request =
  model :: jsstring
  max_tokens :: nat
  messages :: "(jsstring \<times> json option) list"

type_synonym llm = "chat_request \<Rightarrow> js_error + json"

text \<open>
  \<open>typeof prompt !== "string" || prompt.trim().length === 0\<close>
\<close>

definition invalid_prompt :: "json option \<Rightarrow> bool" where
  "invalid_prompt prompt =
     (case prompt of Some (JString s) \<Rightarrow> length (trim s) = 0 | _ \<Rightarrow> True)"

text \<open>
  The middleware \<open>validateRequest\<close>. \<open>req.body\<close> is what \<open>express.json()\<close> left there.
  The result \<open>None\<close> stands for \<open>next()\<close>; a response ends the request.
\<close>

definition validateRequest :: "json \<Rightarrow> js_error + response option" where
  "validateRequest req_body =
     (case read_field (Some req_body) (js ''prompt'') of
        Inl err \<Rightarrow> Inl err
      | Inr prompt \<Rightarrow>
          if invalid_prompt prompt
          then Inr (Some (respond 400
                 (JObject [(js ''error'', JString (js ''Invalid prompt format''))])))
          else Inr None)"

text \<open>
  The handler of \<open>/ask\<close>, identical in both variants of the server. It returns the
  response and the upstream calls it made. It runs after \<open>validateRequest\<close>, which has
  read the same property of the same body, so its own read of \<open>prompt\<close> does not throw.
\<close>

definition ask_handler :: "llm \<Rightarrow> json \<Rightarrow> response \<times> chat_request list" where
  "ask_handler create req_body =
     (let prompt = get_field req_body (js ''prompt'');
          request =
            \<lparr>model = js ''claude-3-5-sonnet-20241022'',
             max_tokens = 1024,
             messages = [(js ''user'', prompt)]\<rparr>
      in (case create request of
            Inr content \<Rightarrow>
              (respond 200 (JObject [(js ''response'', content)]), [request])
          | Inl err \<Rightarrow>
              (respond 500
                 (JObject [(js ''error'', JString (js ''Failed to fetch response from Claude'')),
                           (js ''details'', JString (message err))]),
               [request])))"

text \<open>
  \<open>app.post("/ask", validateRequest, handler)\<close>: the handler runs only after \<open>next()\<close>,
  and an exception thrown by the middleware reaches the error middleware.
\<close>

definition ask :: "llm \<Rightarrow> json \<Rightarrow> response \<times> chat_request list" where
  "ask create req_body =
     (case validateRequest req_body of
        Inl err \<Rightarrow> (error_middleware err, [])
      | Inr (Some res) \<Rightarrow> (res, [])
      | Inr None \<Rightarrow> ask_handler create req_body)"

text \<open>
  The \<open>catch\<close> block of \<open>/test-api\<close>, the same in both variants.
\<close>

definition test_api_failure :: "js_error \<Rightarrow> response" where
  "test_api_failure err =
     respond 500
       (JObject (object_of
          [(js ''status'', Some (JString (js ''error''))),
           (js ''error'', Some (JString (message err))),
           (js ''code'', code err),
           (js ''type'', etype err)]))"

text \<open>
  \<open>/test-api\<close> of \<open>server.js\<close>. \<open>t0\<close> and \<open>t1\<close> are the two readings of \<open>Date.now()\<close>.
\<close>

definition test_api :: "llm \<Rightarrow> int \<Rightarrow> int \<Rightarrow> response \<times> chat_request list" where
  "test_api create t0 t1 =
     (let request =
            \<lparr>model = js ''claude-3-5-sonnet-20241022'',
             max_tokens = 10,
             messages = [(js ''user'', Some (JString (js ''test'')))]\<rparr>
      in (case create request of
            Inr content \<Rightarrow>
              (respond 200
                 (JObject [(js ''status'', JString (js ''success'')),
                           (js ''responseTime'', JNumber (show_int (t1 - t0))),
                           (js ''content'', content)]),
               [request])
          | Inl err \<Rightarrow> (test_api_failure err, [request])))"

text \<open>
  \<open>message.content.join(" ")\<close> in the second variant: \<open>join\<close> exists on arrays only.
\<close>

definition content_join :: "json \<Rightarrow> js_error + jsstring" where
  "content_join content =
     (case content of
        JArray xs \<Rightarrow> join (map Some xs) (js '' '')
      | JNull \<Rightarrow> Inl (TypeError (js ''Cannot read properties of null (reading join)''))
      | _ \<Rightarrow> Inl (TypeError (js ''message.content.join is not a function'')))"

text \<open>
  \<open>/test-api\<close> of the second variant of the server (the one with \<open>/extract-text\<close>).
\<close>

definition test_api_joined :: "llm \<Rightarrow> int \<Rightarrow> int \<Rightarrow> response \<times> chat_request list" where
  "test_api_joined create t0 t1 =
     (let request =
            \<lparr>model = js ''claude-3.5-sonnet'',
             max_tokens = 50,
             messages = [(js ''user'', Some (JString (js ''test'')))]\<rparr>
      in (case create request of
            Inr content \<Rightarrow>
              (case content_join content of
                 Inr joined \<Rightarrow>
                   (respond 200
                      (JObject [(js ''status'', JString (js ''success'')),
                                (js ''responseTime'', JNumber (show_int (t1 - t0))),
                                (js ''content'', JString joined)]),
                    [request])
               | Inl err \<Rightarrow> (test_api_failure err, [request]))
          | Inl err \<Rightarrow> (test_api_failure err, [request])))"

section \<open>Signed URLs: \<open>/generate-sas-url/:blobName\<close> and \<open>/get-images\<close>\<close>

text \<open>
  The options handed to \<open>blobClient.generateSasUrl\<close>, with the blob the client stands
  for. \<open>expiresOn\<close> is the time value of the \<open>Date\<close>, in milliseconds since the epoch. The
  storage SDK either rejects or resolves with the URL.
\<close>

record sas_options =
  blobName :: jsstring
  permissions :: jsstring
  expiresOn :: int

type_synonym signer = "sas_options \<Rightarrow> js_error + jsstring"

text \<open>
  \<open>now\<close> is the value of \<open>new Date().valueOf()\<close> at the moment of issuance.
\<close>

definition generate_sas_url :: "signer \<Rightarrow> int \<Rightarrow> jsstring \<Rightarrow> response \<times> sas_options list" where
  "generate_sas_url generateSasUrl now blob =
     (let options = \<lparr>blobName = blob, permissions = js ''w'', expiresOn = now + 3600 * 1000\<rparr>
      in (case generateSasUrl options of
            Inr sasToken \<Rightarrow>
              (respond 200 (JObject [(js ''sasUrl'', JString sasToken)]), [options])
          | Inl err \<Rightarrow>
              (respond 500 (JObject [(js ''error'', JString (message err))]), [options])))"

text \<open>
  The regular expression \<open>/\.(jpg|jpeg|png|gif|jfif)$/i\<close>. Under the \<open>i\<close> flag (without
  \<open>u\<close>) a code unit above 127 never canonicalises to an ASCII one, so an input code unit
  matches an ASCII pattern character exactly when the two agree after mapping \<open>a\<close>-\<open>z\<close>
  to \<open>A\<close>-\<open>Z\<close>.
\<close>

definition ascii_upper :: "code_unit \<Rightarrow> code_unit" where
  "ascii_upper c = (if 0x61 \<le> c \<and> c \<le> 0x7A then c - 0x20 else c)"

definition matches_i :: "code_unit \<Rightarrow> code_unit \<Rightarrow> bool" where
  "matches_i p c = (ascii_upper c = ascii_upper p)"

definition image_extensions :: "jsstring list" where
  "image_extensions = [js ''jpg'', js ''jpeg'', js ''png'', js ''gif'', js ''jfif'']"

text \<open>
  An attempt at one start position: the dot, one of the alternatives, then \<open>$\<close>, the end
  of the input.
\<close>

fun match_here :: "jsstring \<Rightarrow> bool" where
  "match_here [] = False"
| "match_here (c # rest) =
     (matches_i 0x2E c \<and> list_ex (\<lambda>ext. list_all2 matches_i ext rest) image_extensions)"

text \<open>The search tries every start position from the left.\<close>

fun regex_test :: "jsstring \<Rightarrow> bool" where
  "regex_test [] = match_here []"
| "regex_test (c # cs) = (match_here (c # cs) \<or> regex_test cs)"

text \<open>
  The same test in the words of the specification: the name ends, case-insensitively,
  with a dot and one of the image extensions.
\<close>

definition ends_with :: "jsstring \<Rightarrow> jsstring \<Rightarrow> bool" where
  "ends_with s suffix =
     (length suffix \<le> length s \<and> drop (length s - length suffix) s = suffix)"

definition has_image_extension :: "jsstring \<Rightarrow> bool" where
  "has_image_extension name =
     list_ex (\<lambda>ext. ends_with (map ascii_upper name) (map ascii_upper (js ''.'' @ ext)))
       image_extensions"

text \<open>
  The loop of \<open>/get-images\<close> over the blob names that \<open>listBlobsFlat()\<close> yields.
  \<open>clock k\<close> is the \<open>k\<close>-th reading of \<open>new Date()\<close> in the request, one per signed URL.
  A rejected signature leaves the loop with the error. The counter \<open>blobCount\<close> is only
  logged and is left out.
\<close>

fun sign_images ::
  "signer \<Rightarrow> (nat \<Rightarrow> int) \<Rightarrow> jsstring list \<Rightarrow> jsstring list \<Rightarrow> sas_options list \<Rightarrow>
     (js_error + jsstring list) \<times> sas_options list" where
  "sign_images generateSasUrl clock [] imageUrls calls = (Inr imageUrls, calls)"
| "sign_images generateSasUrl clock (name # blobs) imageUrls calls =
     (if regex_test name then
        (let options =
               \<lparr>blobName = name, permissions = js ''r'',
                expiresOn = clock (length calls) + 3600 * 1000\<rparr>
         in (case generateSasUrl options of
               Inl err \<Rightarrow> (Inl err, calls @ [options])
             | Inr sasToken \<Rightarrow>
                 sign_images generateSasUrl clock blobs (imageUrls @ [sasToken])
                   (calls @ [options])))
      else sign_images generateSasUrl clock blobs imageUrls calls)"

text \<open>
  The listing is the names the iterator yields and, when the iteration fails, the error
  it rejects with after the last of them.
\<close>

definition get_images ::
  "signer \<Rightarrow> (nat \<Rightarrow> int) \<Rightarrow> jsstring list \<times> js_error option \<Rightarrow> response \<times> sas_options list" where
  "get_images generateSasUrl clock listing =
     (case sign_images generateSasUrl clock (fst listing) [] [] of
        (Inl err, calls) \<Rightarrow>
          (respond 500 (JObject [(js ''error'', JString (message err))]), calls)
      | (Inr imageUrls, calls) \<Rightarrow>
          (case snd listing of
             Some err \<Rightarrow>
               (respond 500 (JObject [(js ''error'', JString (message err))]), calls)
           | None \<Rightarrow>
               if length imageUrls = 0
               then (respond 404 (JObject [(js ''error'', JString (js ''No images found''))]),
                     calls)
               else (respond 200 (JArray (map JString imageUrls)), calls)))"

text \<open>
  The signing requests for a list of blob names, as the specification describes them:
  one per name, read-scoped, expiring one hour after the reading of the clock that
  belongs to it; \<open>k\<close> is the number of readings before the first.
\<close>

fun read_options :: "(nat \<Rightarrow> int) \<Rightarrow> nat \<Rightarrow> jsstring list \<Rightarrow> sas_options list" where
  "read_options clock k [] = []"
| "read_options clock k (name # names) =
     \<lparr>blobName = name, permissions = js ''r'', expiresOn = clock k + 3600 * 1000\<rparr>
       # read_options clock (Suc k) names"

section \<open>OCR and translation: \<open>/extract-text\<close>\<close>

text \<open>
  What the request meets outside the process: the file system, the two providers (each
  call rejects or resolves with \<open>response.data\<close>) and \<open>JSON.parse\<close>, which throws or
  returns a value. \<open>response.data\<close> is whatever the HTTP client hands over: the body as
  a string, or a value the client has parsed from the body.
\<close>

type_synonym bytes = "8 word list"
type_synonym parser = "jsstring \<Rightarrow> js_error + json"

record extract_env =
  readFileSync :: "jsstring \<Rightarrow> js_error + bytes"
  vision_post :: "bytes \<Rightarrow> js_error + json"
  translator_post :: "jsstring \<Rightarrow> js_error + json"
  unlinkSync :: "jsstring \<Rightarrow> js_error + unit"
  JSON_parse :: parser

text \<open>
  The OCR body: \<open>rawResponse.substring(rawResponse.indexOf("{"))\<close>, then \<open>JSON.parse\<close>.
\<close>

definition parse_vision :: "parser \<Rightarrow> jsstring \<Rightarrow> js_error + json" where
  "parse_vision parse rawResponse =
     (let jsonStartIndex = indexOf rawResponse (js ''{'');
          jsonString = substring_from rawResponse jsonStartIndex
      in parse jsonString)"

text \<open>
  \<open>!visionData || !visionData.regions || !Array.isArray(visionData.regions)\<close>: the
  regions when the test fails, \<open>None\<close> when it holds.
\<close>

definition vision_regions :: "json \<Rightarrow> json list option" where
  "vision_regions visionData =
     (let regions = get_field visionData (js ''regions'')
      in if \<not> truthy visionData \<or> falsy regions \<or> \<not> isArray regions then None
         else (case regions of Some (JArray rs) \<Rightarrow> Some rs | _ \<Rightarrow> None))"

text \<open>
  The receiver of \<open>.forEach\<close> or \<open>.map\<close> must be an array; on anything else the call
  throws a TypeError.
\<close>

definition array_receiver :: "json option \<Rightarrow> jsstring \<Rightarrow> js_error + json list" where
  "array_receiver v method =
     (case v of
        Some (JArray xs) \<Rightarrow> Inr xs
      | None \<Rightarrow>
          Inl (TypeError (js ''Cannot read properties of undefined (reading '' @ method @ js '')''))
      | Some JNull \<Rightarrow>
          Inl (TypeError (js ''Cannot read properties of null (reading '' @ method @ js '')''))
      | _ \<Rightarrow> Inl (TypeError (method @ js '' is not a function'')))"

text \<open>\<open>line.words.map((word) => word.text)\<close>\<close>

fun words_text :: "json list \<Rightarrow> js_error + json option list" where
  "words_text [] = Inr []"
| "words_text (word # words) =
     and_then (read_field (Some word) (js ''text'')) (\<lambda>text.
     and_then (words_text words) (\<lambda>texts. Inr (text # texts)))"

text \<open>\<open>line.words.map((word) => word.text).join(" ") + " "\<close>\<close>

definition line_text :: "json \<Rightarrow> js_error + jsstring" where
  "line_text line =
     and_then (read_field (Some line) (js ''words'')) (\<lambda>words.
     and_then (array_receiver words (js ''map'')) (\<lambda>ws.
     and_then (words_text ws) (\<lambda>texts.
     and_then (join texts (js '' '')) (\<lambda>joined. Inr (joined @ js '' '')))))"

text \<open>\<open>region.lines.forEach((line) => { extractedText += ... })\<close>\<close>

fun lines_text :: "json list \<Rightarrow> jsstring \<Rightarrow> js_error + jsstring" where
  "lines_text [] extractedText = Inr extractedText"
| "lines_text (line # lines) extractedText =
     and_then (line_text line) (\<lambda>t. lines_text lines (extractedText @ t))"

definition region_text :: "json \<Rightarrow> jsstring \<Rightarrow> js_error + jsstring" where
  "region_text region extractedText =
     and_then (read_field (Some region) (js ''lines'')) (\<lambda>lines.
     and_then (array_receiver lines (js ''forEach'')) (\<lambda>ls. lines_text ls extractedText))"

text \<open>\<open>visionData.regions.forEach((region) => ...)\<close>\<close>

fun regions_text :: "json list \<Rightarrow> jsstring \<Rightarrow> js_error + jsstring" where
  "regions_text [] extractedText = Inr extractedText"
| "regions_text (region # regions) extractedText =
     and_then (region_text region extractedText) (regions_text regions)"

text \<open>The text of all regions, trimmed; an empty result is an error.\<close>

definition extracted_text :: "json list \<Rightarrow> js_error + jsstring" where
  "extracted_text regions =
     and_then (regions_text regions []) (\<lambda>text.
       let extractedText = trim text
       in if extractedText = [] then Inl (Error (js ''No text extracted from the image.''))
          else Inr extractedText)"

text \<open>
  The translator body: from the first \<open>[\<close>, trimmed, up to and including the last \<open>]\<close>.
\<close>

definition clean_json_string :: "jsstring \<Rightarrow> js_error + jsstring" where
  "clean_json_string rawResponseData =
     (let jsonStart = indexOf rawResponseData (js ''['')
      in if jsonStart = -1 then Inl (Error (js ''No JSON found in the response.''))
         else (let jsonStringData = trim (slice_from rawResponseData jsonStart);
                   jsonEndIndex = lastIndexOf jsonStringData (js '']'') + 1
               in Inr (substring jsonStringData 0 jsonEndIndex)))"

definition parse_translator :: "parser \<Rightarrow> jsstring \<Rightarrow> js_error + json" where
  "parse_translator parse rawResponseData =
     and_then (clean_json_string rawResponseData) parse"

text \<open>
  Optional chaining: \<open>v?.name\<close> and \<open>v?.[0]\<close> are \<open>undefined\<close> when \<open>v\<close> is
  \<open>undefined\<close> or \<open>null\<close>.
\<close>

definition optional_field :: "json option \<Rightarrow> jsstring \<Rightarrow> json option" where
  "optional_field v name =
     (case v of None \<Rightarrow> None | Some JNull \<Rightarrow> None | Some x \<Rightarrow> get_field x name)"

definition optional_index0 :: "json option \<Rightarrow> json option" where
  "optional_index0 v =
     (case v of None \<Rightarrow> None | Some JNull \<Rightarrow> None | Some x \<Rightarrow> index0 x)"

text \<open>
  The two checks on the parsed translation, and \<open>firstTranslation.text\<close>.
\<close>

definition translated_text :: "json \<Rightarrow> js_error + json" where
  "translated_text translateData =
     (case translateData of
        JArray (first # others) \<Rightarrow>
          (let firstTranslation =
                 optional_index0 (optional_field (Some first) (js ''translations''));
               missing = Inl (Error (js ''Translation response does not contain text.''))
           in (case firstTranslation of
                 None \<Rightarrow> missing
               | Some ft \<Rightarrow>
                   if \<not> truthy ft \<or> falsy (get_field ft (js ''text'')) then missing
                   else (case get_field ft (js ''text'') of
                           None \<Rightarrow> missing
                         | Some text \<Rightarrow> Inr text)))
      | _ \<Rightarrow> Inl (Error (js ''Invalid or empty response from Azure Translator API.'')))"

text \<open>From the translator's \<open>response.data\<close> to the translated text.\<close>

definition translation_of :: "parser \<Rightarrow> json \<Rightarrow> js_error + json" where
  "translation_of parse data =
     and_then (toString data) (\<lambda>rawResponseData.
     and_then (parse_translator parse rawResponseData) translated_text)"

definition generic_failure :: response where
  "generic_failure =
     respond 500
       (JObject [(js ''error'', JString (js ''An error occurred while processing the image.''))])"

definition invalid_vision_response :: response where
  "invalid_vision_response =
     respond 500 (JObject [(js ''error'', JString (js ''Invalid response from Vision API.''))])"

text \<open>\<open>res.json({ extractedText, translatedText })\<close>\<close>

definition success_response :: "jsstring \<Rightarrow> json \<Rightarrow> response" where
  "success_response extractedText translatedText =
     respond 200
       (JObject [(js ''extractedText'', JString extractedText),
                 (js ''translatedText'', translatedText)])"

text \<open>
  The \<open>try\<close> block once a file is there, in two parts. The first part runs from
  reading the file to the extracted text; it ends the request early, with the response
  for an invalid OCR shape, or hands the text on.
\<close>

definition ocr_stage :: "extract_env \<Rightarrow> jsstring \<Rightarrow> js_error + (response + jsstring)" where
  "ocr_stage env imagePath =
     and_then (readFileSync env imagePath) (\<lambda>imageBuffer.
     and_then (vision_post env imageBuffer) (\<lambda>data.
     and_then (toString data) (\<lambda>rawResponse.
     and_then (parse_vision (JSON_parse env) rawResponse) (\<lambda>visionData.
       case vision_regions visionData of
         None \<Rightarrow> Inr (Inl invalid_vision_response)
       | Some regions \<Rightarrow>
           and_then (extracted_text regions) (\<lambda>extractedText. Inr (Inr extractedText))))))"

text \<open>
  The second part: the translator call, the deletion of the upload and the response.
\<close>

definition translate_stage :: "extract_env \<Rightarrow> jsstring \<Rightarrow> jsstring \<Rightarrow> js_error + response" where
  "translate_stage env imagePath extractedText =
     and_then (translator_post env extractedText) (\<lambda>data.
     and_then (translation_of (JSON_parse env) data) (\<lambda>translatedText.
     and_then (unlinkSync env imagePath) (\<lambda>u.
       Inr (success_response extractedText translatedText))))"

definition extract_text_try :: "extract_env \<Rightarrow> jsstring \<Rightarrow> js_error + response" where
  "extract_text_try env imagePath =
     and_then (ocr_stage env imagePath) (\<lambda>stage.
       case stage of
         Inl res \<Rightarrow> Inr res
       | Inr extractedText \<Rightarrow> translate_stage env imagePath extractedText)"

text \<open>
  The handler: \<open>file\<close> is the path of \<open>req.file\<close>, if multer stored one.
\<close>

definition extract_text :: "extract_env \<Rightarrow> jsstring option \<Rightarrow> response" where
  "extract_text env file =
     (case file of
        None \<Rightarrow> respond 400 (JObject [(js ''error'', JString (js ''No image file uploaded.''))])
      | Some imagePath \<Rightarrow>
          (case extract_text_try env imagePath of
             Inr res \<Rightarrow> res
           | Inl err \<Rightarrow> generic_failure))"

section \<open>Concrete inputs\<close>

text \<open>
  Providers that always resolve with one value, or always reject with one error.
\<close>

definition answering :: "'b \<Rightarrow> 'a \<Rightarrow> js_error + 'b" where
  "answering v request = Inr v"

definition failing :: "js_error \<Rightarrow> 'a \<Rightarrow> js_error + 'b" where
  "failing err request = Inl err"

text \<open>
  An OCR body and a translator body as the providers document them, with the values
  \<open>JSON.parse\<close> gives for them. \<open>example_parse\<close> agrees with \<open>JSON.parse\<close> on these two
  texts and on every text that is not JSON.
\<close>

definition ocr_body :: jsstring where
  \<open>ocr_body = js ''{"regions":[{"lines":[{"words":[{"text":"Hola"},{"text":"mundo"}]}]}]}''\<close>

definition ocr_value :: json where
  "ocr_value =
     JObject [(js ''regions'', JArray [
       JObject [(js ''lines'', JArray [
         JObject [(js ''words'', JArray [
           JObject [(js ''text'', JString (js ''Hola''))],
           JObject [(js ''text'', JString (js ''mundo''))]])]])]])]"

definition translator_body :: jsstring where
  \<open>translator_body = js ''[{"translations":[{"text":"Hello world","to":"en"}]}]''\<close>

definition translator_value :: json where
  "translator_value =
     JArray [
       JObject [(js ''translations'', JArray [
         JObject [(js ''text'', JString (js ''Hello world'')),
                  (js ''to'', JString (js ''en''))]])]]"

definition example_parse :: parser where
  "example_parse text =
     (if text = ocr_body then Inr ocr_value
      else if text = translator_body then Inr translator_value
      else Inl (Thrown (js ''Unexpected token'') None None))"

definition example_env :: extract_env where
  "example_env =
     \<lparr>readFileSync = answering [0xFF, 0xD8],
      vision_post = answering (JString ocr_body),
      translator_post = answering (JString translator_body),
      unlinkSync = answering (),
      JSON_parse = example_parse\<rparr>"

text \<open>
  Environments in which one step of the pipeline fails. Where the OCR body differs from
  \<open>ocr_body\<close>, the parser answers the value \<open>JSON.parse\<close> gives for that body.
\<close>

definition unreadable_env :: extract_env where
  "unreadable_env = example_env\<lparr>readFileSync := failing (Error (js ''ENOENT: no such file''))\<rparr>"

definition ocr_down_env :: extract_env where
  "ocr_down_env =
     example_env\<lparr>vision_post := failing (Error (js ''Request failed with status code 415''))\<rparr>"

definition ocr_html_env :: extract_env where
  "ocr_html_env = example_env\<lparr>vision_post := answering (JString (js ''Bad Gateway''))\<rparr>"

definition ocr_empty_array_env :: extract_env where
  "ocr_empty_array_env =
     example_env\<lparr>vision_post := answering (JString (js ''[]'')),
                 JSON_parse := answering (JArray [])\<rparr>"

definition ocr_empty_object_env :: extract_env where
  "ocr_empty_object_env =
     example_env\<lparr>vision_post := answering (JString (js ''{}'')),
                 JSON_parse := answering (JObject [])\<rparr>"

definition ocr_no_regions_env :: extract_env where
  \<open>ocr_no_regions_env =
     example_env\<lparr>vision_post := answering (JString (js ''{"regions":[]}'')),
                 JSON_parse := answering (JObject [(js ''regions'', JArray [])])\<rparr>\<close>

definition translator_down_env :: extract_env where
  "translator_down_env =
     example_env\<lparr>translator_post := failing (Error (js ''Request failed with status code 401''))\<rparr>"

definition translator_html_env :: extract_env where
  "translator_html_env =
     example_env\<lparr>translator_post := answering (JString (js ''Service Unavailable''))\<rparr>"

text \<open>A chat request body, and a content as the chat provider returns it.\<close>

definition ask_body :: "jsstring \<Rightarrow> json" where
  "ask_body prompt = JObject [(js ''prompt'', JString prompt)]"

definition content_blocks :: json where
  "content_blocks =
     JArray [JObject [(js ''type'', JString (js ''text'')),
                      (js ''text'', JString (js ''Hello!''))]]"

text \<open>Two container listings, a signer and a clock.\<close>

definition non_image_names :: "jsstring list" where
  "non_image_names = [js ''readme.txt'', js ''data.csv'', js ''photo.jpg.bak'', js ''png'']"

definition mixed_names :: "jsstring list" where
  "mixed_names = [js ''cat.PNG'', js ''notes.txt'', js ''dog.jpeg'']"

definition example_signer :: signer where
  "example_signer options =
     Inr (js ''https://blob.example/'' @ blobName options @ js ''?sp='' @ permissions options)"

definition example_clock :: "nat \<Rightarrow> int" where
  "example_clock k = 1700000000000 + 7 * int k"

section \<open>Properties of the start-up check\<close>

lemma first_missing_None:
  "first_missing env keys = None \<longleftrightarrow> (\<forall>key \<in> set keys. \<not> env_falsy (env key))"
  by (induction keys) auto

lemma first_missing_Some:
  "first_missing env keys = Some key \<Longrightarrow> key \<in> set keys \<and> env_falsy (env key)"
  by (induction keys) (auto split: if_splits)

lemma env_falsy_iff: "env_falsy v \<longleftrightarrow> v = None \<or> v = Some []"
  by (cases v) (auto simp: env_falsy_def)

text \<open>
  C9, as the code has it. A required variable counts as missing when it is unset or set
  to the empty string. If one of the four is missing, the process logs one error naming
  the first such variable and exits with status 1, and the listener is never bound; if all
  four are set to non-empty strings, the check passes and the process goes on to listen.
\<close>

theorem startup_required_credentials:
  "(if \<exists>key \<in> set requiredEnvVars. env key = None \<or> env key = Some []
    then \<exists>key \<in> set requiredEnvVars.
           (env key = None \<or> env key = Some []) \<and>
           startup env =
             [ConsoleError (js ''X Missing environment variable: '' @ key), ProcessExit 1]
    else startup env = [Listen (PORT env)])"
proof (cases "first_missing env requiredEnvVars")
  case None
  then have "\<forall>key \<in> set requiredEnvVars. \<not> env_falsy (env key)"
    by (simp add: first_missing_None)
  then have "\<not> (\<exists>key \<in> set requiredEnvVars. env key = None \<or> env key = Some [])"
    by (simp add: env_falsy_iff)
  moreover have "startup env = [Listen (PORT env)]"
    using None by (simp add: startup_def)
  ultimately show ?thesis by simp
next
  case (Some key)
  then have k: "key \<in> set requiredEnvVars" "env key = None \<or> env key = Some []"
    using first_missing_Some [of env requiredEnvVars key] by (simp_all add: env_falsy_iff)
  moreover have "startup env =
      [ConsoleError (js ''X Missing environment variable: '' @ key), ProcessExit 1]"
    using Some by (simp add: startup_def)
  ultimately show ?thesis by auto
qed

theorem startup_required_credentials_witness:
  "env_all_set (js ''ANTHROPIC_API_KEY'') = Some (js ''secret'') \<and>
   env_all_set (js ''AZURE_STORAGE_ACCOUNT_NAME'') = Some (js ''secret'') \<and>
   env_all_set (js ''AZURE_STORAGE_ACCOUNT_KEY'') = Some (js ''secret'') \<and>
   env_all_set (js ''AZURE_CONTAINER_NAME'') = Some (js ''secret'') \<and>
   startup env_all_set = [Listen (DefaultPort 5000)] \<and>
   env_no_api_key (js ''ANTHROPIC_API_KEY'') = None \<and>
   (\<exists>key \<in> set requiredEnvVars.
      startup env_no_api_key =
        [ConsoleError (js ''X Missing environment variable: '' @ key), ProcessExit 1])"
proof -
  have present: "\<not> (\<exists>key \<in> set requiredEnvVars.
                 env_all_set key = None \<or> env_all_set key = Some [])"
    by (simp add: env_all_set_def requiredEnvVars_def js_def)
  have "startup env_all_set = [Listen (PORT env_all_set)]"
    using startup_required_credentials [of env_all_set] present by simp
  moreover have "PORT env_all_set = DefaultPort 5000"
    by (simp add: PORT_def env_all_set_def requiredEnvVars_def js_def)
  ultimately have ok: "startup env_all_set = [Listen (DefaultPort 5000)]" by simp
  have absent: "env_no_api_key (js ''ANTHROPIC_API_KEY'') = None"
    by (simp add: env_no_api_key_def)
  then have "\<exists>key \<in> set requiredEnvVars.
      env_no_api_key key = None \<or> env_no_api_key key = Some []"
    by (auto simp: requiredEnvVars_def)
  then have exits: "\<exists>key \<in> set requiredEnvVars.
      startup env_no_api_key =
        [ConsoleError (js ''X Missing environment variable: '' @ key), ProcessExit 1]"
    using startup_required_credentials [of env_no_api_key] by auto
  show ?thesis
    using ok absent exits by (simp add: env_all_set_def requiredEnvVars_def)
qed

text \<open>
  The claim as stated lets the check pass whenever all four variables are present. With
  the container name present but empty the process still exits with status 1.
\<close>

theorem startup_present_but_empty_counterexample:
  "env_empty_container (js ''ANTHROPIC_API_KEY'') \<noteq> None \<and>
   env_empty_container (js ''AZURE_STORAGE_ACCOUNT_NAME'') \<noteq> None \<and>
   env_empty_container (js ''AZURE_STORAGE_ACCOUNT_KEY'') \<noteq> None \<and>
   env_empty_container (js ''AZURE_CONTAINER_NAME'') \<noteq> None \<and>
   startup env_empty_container =
     [ConsoleError (js ''X Missing environment variable: AZURE_CONTAINER_NAME''),
      ProcessExit 1]"
  by (simp add: env_empty_container_def startup_def requiredEnvVars_def env_falsy_def js_def)

section \<open>Properties of the string operations\<close>

lemma and_then_simps [simp]:
  "and_then (Inl err) f = Inl err"
  "and_then (Inr x) f = f x"
  by (simp_all add: and_then_def)

lemma indexOf_from_absent:
  "c \<notin> set s \<Longrightarrow> indexOf_from [c] s k = -1"
  by (induction s arbitrary: k) auto

lemma indexOf_from_first:
  "c \<notin> set p \<Longrightarrow> indexOf_from [c] (p @ c # r) k = int (k + length p)"
  by (induction p arbitrary: k) auto

lemma indexOf_absent: "c \<notin> set s \<Longrightarrow> indexOf s [c] = -1"
  by (simp add: indexOf_def indexOf_from_absent)

lemma indexOf_first: "c \<notin> set p \<Longrightarrow> indexOf (p @ c # r) [c] = int (length p)"
  by (simp add: indexOf_def indexOf_from_first)

lemma lastIndexOf_from_absent:
  "c \<notin> set s \<Longrightarrow> lastIndexOf_from [c] s k found = found"
  by (induction s arbitrary: k found) auto

lemma lastIndexOf_from_last:
  "c \<notin> set r \<Longrightarrow> lastIndexOf_from [c] (p @ c # r) k found = int (k + length p)"
  by (induction p arbitrary: k found) (auto simp: lastIndexOf_from_absent)

lemma lastIndexOf_last:
  "c \<notin> set r \<Longrightarrow> lastIndexOf (p @ c # r) [c] = int (length p)"
  by (simp add: lastIndexOf_def lastIndexOf_from_last)

lemma substring_from_negative: "i \<le> 0 \<Longrightarrow> substring_from s i = s"
  by (simp add: substring_from_def substring_def clamp_index_def Let_def)

lemma substring_from_drop: "n \<le> length s \<Longrightarrow> substring_from s (int n) = drop n s"
  by (simp add: substring_from_def substring_def clamp_index_def Let_def min_def max_def)

lemma substring_take: "n \<le> length s \<Longrightarrow> substring s 0 (int n) = take n s"
  by (simp add: substring_def clamp_index_def Let_def min_def max_def)

lemma slice_from_drop: "n \<le> length s \<Longrightarrow> slice_from s (int n) = drop n s"
  by (simp add: slice_from_def Let_def min_def)

lemma trim_delimited:
  assumes "\<not> is_ws a" "\<not> is_ws b"
  shows "trim (a # mid @ b # suffix) = a # mid @ b # rev (dropWhile is_ws (rev suffix))"
proof -
  have "dropWhile is_ws (rev suffix @ b # rev mid @ [a])
        = dropWhile is_ws (rev suffix) @ b # rev mid @ [a]"
    using assms by (simp add: dropWhile_append)
  then show ?thesis using assms by (simp add: trim_def)
qed

lemma dropWhile_all_ws:
  "(\<forall>x \<in> set (dropWhile is_ws s). is_ws x) \<longleftrightarrow> (\<forall>c \<in> set s. is_ws c)"
proof
  assume all: "\<forall>x \<in> set (dropWhile is_ws s). is_ws x"
  have "dropWhile is_ws s = []"
  proof (rule ccontr)
    assume ne: "dropWhile is_ws s \<noteq> []"
    then have "\<not> is_ws (hd (dropWhile is_ws s))" by (rule hd_dropWhile)
    moreover have "hd (dropWhile is_ws s) \<in> set (dropWhile is_ws s)" using ne by simp
    ultimately show False using all by blast
  qed
  then show "\<forall>c \<in> set s. is_ws c" by simp
next
  assume "\<forall>c \<in> set s. is_ws c"
  then show "\<forall>x \<in> set (dropWhile is_ws s). is_ws x"
    by (auto dest: set_dropWhileD)
qed

lemma trim_empty_iff: "trim s = [] \<longleftrightarrow> (\<forall>c \<in> set s. is_ws c)"
  by (simp add: trim_def dropWhile_all_ws)

section \<open>Properties of the two extraction steps\<close>

lemma toString_JString [simp]: "toString (JString s) = Inr s"
  by (simp add: toString_def)

lemma parse_vision_prefix:
  assumes "c = of_char CHR ''{''" "c \<notin> set prefix"
  shows "parse_vision parse (prefix @ c # rest) = parse (c # rest)"
proof -
  have "indexOf (prefix @ c # rest) (js ''{'') = int (length prefix)"
    using assms indexOf_first [of c prefix rest] by (simp add: js_def)
  moreover have "substring_from (prefix @ c # rest) (int (length prefix)) = c # rest"
    by (simp add: substring_from_drop)
  ultimately show ?thesis by (simp add: parse_vision_def)
qed

lemma parse_vision_no_brace:
  assumes "of_char CHR ''{'' \<notin> set raw"
  shows "parse_vision parse raw = parse raw"
proof -
  have "indexOf raw (js ''{'') = -1"
    using assms indexOf_absent [of "of_char CHR ''{''" raw] by (simp add: js_def)
  then show ?thesis by (simp add: parse_vision_def substring_from_negative)
qed

lemma clean_json_string_wrapped:
  assumes "of_char CHR ''['' \<notin> set prefix" "of_char CHR '']'' \<notin> set suffix"
  shows "clean_json_string (prefix @ js ''['' @ elements @ js '']'' @ suffix)
         = Inr (js ''['' @ elements @ js '']'')"
proof -
  define a :: code_unit where "a = of_char CHR ''[''"
  define b :: code_unit where "b = of_char CHR '']''"
  define tail where "tail = rev (dropWhile is_ws (rev suffix))"
  have ws: "\<not> is_ws a" "\<not> is_ws b" by (simp_all add: a_def b_def is_ws_def)
  have lits: "js ''['' = [a]" "js '']'' = [b]" by (simp_all add: a_def b_def js_def)
  have start: "indexOf (prefix @ a # elements @ b # suffix) [a] = int (length prefix)"
    using assms(1) by (simp add: indexOf_first a_def)
  have sl: "slice_from (prefix @ a # elements @ b # suffix) (int (length prefix))
            = a # elements @ b # suffix"
    by (simp add: slice_from_drop)
  have tr: "trim (a # elements @ b # suffix) = a # elements @ b # tail"
    using ws by (simp add: trim_delimited tail_def)
  have "set tail \<subseteq> set suffix"
    by (auto simp: tail_def dest: set_dropWhileD)
  then have "b \<notin> set tail" using assms(2) by (auto simp: b_def)
  then have "lastIndexOf ((a # elements) @ b # tail) [b] = int (length (a # elements))"
    by (rule lastIndexOf_last)
  then have last: "lastIndexOf (a # elements @ b # tail) [b] + 1 = int (length elements + 2)"
    by simp
  have sub: "substring (a # elements @ b # tail) 0 (int (length elements + 2))
             = a # elements @ [b]"
    by (subst substring_take) simp_all
  show ?thesis
    unfolding clean_json_string_def lits using start sl tr last sub
    by (simp add: Let_def)
qed

lemma clean_json_string_no_bracket:
  assumes "of_char CHR ''['' \<notin> set raw"
  shows "clean_json_string raw = Inl (Error (js ''No JSON found in the response.''))"
proof -
  have "indexOf raw (js ''['') = -1"
    using assms indexOf_absent [of "of_char CHR ''[''" raw] by (simp add: js_def)
  then show ?thesis by (simp add: clean_json_string_def)
qed

lemma extract_text_Some:
  "extract_text env (Some path) =
     (case extract_text_try env path of Inr res \<Rightarrow> res | Inl err \<Rightarrow> generic_failure)"
  by (simp add: extract_text_def)

lemma translation_of_JString:
  "translation_of parse (JString raw) =
     and_then (and_then (clean_json_string raw) parse) translated_text"
  by (simp add: translation_of_def parse_translator_def)

section \<open>Evaluation of the concrete inputs\<close>

lemma example_parse_ocr_body: "example_parse ocr_body = Inr ocr_value"
  by (simp add: example_parse_def)

lemma example_parse_translator_body: "example_parse translator_body = Inr translator_value"
  by (simp add: example_parse_def ocr_body_def translator_body_def js_def)

lemma example_parse_not_json:
  "example_parse (js ''Bad Gateway'') = Inl (Thrown (js ''Unexpected token'') None None)"
  "example_parse (js ''[info] '' @ translator_body) =
     Inl (Thrown (js ''Unexpected token'') None None)"
  "example_parse (translator_body @ js '' (end]'') =
     Inl (Thrown (js ''Unexpected token'') None None)"
  by (simp_all add: example_parse_def ocr_body_def translator_body_def js_def)

lemma ocr_body_begins: "take 1 ocr_body = js ''{''"
  by (simp add: ocr_body_def js_def)

lemma translator_body_delimited:
  "translator_body = js ''['' @ butlast (tl translator_body) @ js '']''"
  by (simp add: translator_body_def js_def)

lemma parse_vision_ocr_body: "parse_vision example_parse ocr_body = Inr ocr_value"
proof -
  have "ocr_body = of_char CHR ''{'' # tl ocr_body"
    by (simp add: ocr_body_def js_def)
  then show ?thesis
    using parse_vision_prefix [of "of_char CHR ''{''" "[]" example_parse "tl ocr_body"]
    by (simp add: example_parse_ocr_body)
qed

lemma extracted_text_ocr_value:
  "vision_regions ocr_value =
     Some [JObject [(js ''lines'', JArray [
             JObject [(js ''words'', JArray [
               JObject [(js ''text'', JString (js ''Hola''))],
               JObject [(js ''text'', JString (js ''mundo''))]])]])]]"
  "extracted_text
     [JObject [(js ''lines'', JArray [
        JObject [(js ''words'', JArray [
          JObject [(js ''text'', JString (js ''Hola''))],
          JObject [(js ''text'', JString (js ''mundo''))]])]])]] = Inr (js ''Hola mundo'')"
  by (simp_all add: vision_regions_def ocr_value_def falsy_def isArray_def
      extracted_text_def region_text_def line_text_def read_field_def get_field_def
      array_receiver_def join_def element_string_def element_convertible_def trim_def
      is_ws_def js_def)

lemma ocr_stage_example:
  assumes "readFileSync env path = Inr imageBuffer"
    and "vision_post env imageBuffer = Inr (JString ocr_body)"
    and "JSON_parse env = example_parse"
  shows "ocr_stage env path = Inr (Inr (js ''Hola mundo''))"
  using assms
  by (simp add: ocr_stage_def parse_vision_ocr_body extracted_text_ocr_value)

lemma translated_text_example:
  "translated_text translator_value = Inr (JString (js ''Hello world''))"
  by (simp add: translated_text_def translator_value_def optional_index0_def optional_field_def
      get_field_def index0_def falsy_def js_def)

lemma translation_of_translator_body:
  "translation_of example_parse (JString translator_body) = Inr (JString (js ''Hello world''))"
proof -
  have "clean_json_string ([] @ js ''['' @ butlast (tl translator_body) @ js '']'' @ [])
        = Inr (js ''['' @ butlast (tl translator_body) @ js '']'')"
    by (rule clean_json_string_wrapped) simp_all
  then have "clean_json_string translator_body = Inr translator_body"
    using translator_body_delimited by simp
  then show ?thesis
    by (simp add: translation_of_JString example_parse_translator_body translated_text_example)
qed

lemma example_env_fields:
  "readFileSync example_env path = Inr [0xFF, 0xD8]"
  "vision_post example_env imageBuffer = Inr (JString ocr_body)"
  "translator_post example_env extractedText = Inr (JString translator_body)"
  "unlinkSync example_env path = Inr ()"
  "JSON_parse example_env = example_parse"
  by (simp_all add: example_env_def answering_def)

lemma extract_text_example:
  "extract_text example_env (Some path) =
     success_response (js ''Hola mundo'') (JString (js ''Hello world''))"
proof -
  have "ocr_stage example_env path = Inr (Inr (js ''Hola mundo''))"
    by (rule ocr_stage_example) (simp_all add: example_env_fields)
  then show ?thesis
    by (simp add: extract_text_Some extract_text_try_def translate_stage_def example_env_fields
        translation_of_translator_body)
qed

lemma clean_json_string_bracketed:
  "clean_json_string (js ''[info] '' @ translator_body) = Inr (js ''[info] '' @ translator_body)"
  "clean_json_string (translator_body @ js '' (end]'') = Inr (translator_body @ js '' (end]'')"
  by (simp_all add: clean_json_string_def indexOf_def lastIndexOf_def slice_from_def trim_def
      is_ws_def substring_def clamp_index_def Let_def translator_body_def js_def)

lemma trim_examples: "trim (js '' Hi '') \<noteq> []" "trim [0x20, 0x09, 0xFEFF] = []"
  by (simp_all add: trim_def is_ws_def js_def)

lemma show_int_850: "show_int (1700000000850 - 1700000000000) = js ''850''"
  by (simp add: show_int_def show_nat.simps js_def)

section \<open>The OCR body with a prefix\<close>

text \<open>
  C1. When the OCR body is a prefix without \<open>{\<close> followed by an object text (a text that
  begins with \<open>{\<close>), the extraction step hands \<open>JSON.parse\<close> exactly the object text, so
  its result is the result of parsing the clean object; the whole handler answers the
  prefixed body as it answers the clean one.
\<close>

theorem vision_prefix_ignored:
  assumes "of_char CHR ''{'' \<notin> set prefix" and "take 1 object = js ''{''"
  shows "parse_vision parse (prefix @ object) = parse object \<and>
         extract_text (env\<lparr>vision_post := answering (JString (prefix @ object))\<rparr>) upload =
         extract_text (env\<lparr>vision_post := answering (JString object)\<rparr>) upload"
proof -
  obtain rest where obj: "object = of_char CHR ''{'' # rest"
    using assms(2) by (cases object) (simp_all add: js_def)
  have pre: "parse_vision p (prefix @ object) = p object" for p
    unfolding obj using assms(1) by (intro parse_vision_prefix) simp_all
  have clean: "parse_vision p object = p object" for p
    using parse_vision_prefix [of "of_char CHR ''{''" "[]" p rest] by (simp add: obj)
  have "ocr_stage (env\<lparr>vision_post := answering (JString (prefix @ object))\<rparr>) path =
        ocr_stage (env\<lparr>vision_post := answering (JString object)\<rparr>) path" for path
    by (simp add: ocr_stage_def answering_def pre clean)
  then have "extract_text_try (env\<lparr>vision_post := answering (JString (prefix @ object))\<rparr>) path =
        extract_text_try (env\<lparr>vision_post := answering (JString object)\<rparr>) path" for path
    by (simp add: extract_text_try_def translate_stage_def cong: sum.case_cong)
  then have "extract_text (env\<lparr>vision_post := answering (JString (prefix @ object))\<rparr>) upload =
         extract_text (env\<lparr>vision_post := answering (JString object)\<rparr>) upload"
    by (cases upload) (simp_all add: extract_text_def)
  then show ?thesis
    using pre by simp
qed

theorem vision_prefix_ignored_witness:
  "of_char CHR ''{'' \<notin> set (js ''xyz'') \<and> take 1 ocr_body = js ''{'' \<and>
   parse_vision example_parse (js ''xyz'' @ ocr_body) = Inr ocr_value \<and>
   extract_text (example_env\<lparr>vision_post := answering (JString (js ''xyz'' @ ocr_body))\<rparr>)
       (Some (js ''uploads/1'')) =
     success_response (js ''Hola mundo'') (JString (js ''Hello world''))"
proof -
  have h1: "of_char CHR ''{'' \<notin> set (js ''xyz'')" by (simp add: js_def)
  have same: "example_env\<lparr>vision_post := answering (JString ocr_body)\<rparr> = example_env"
    by (simp add: example_env_def)
  have "parse_vision example_parse (js ''xyz'' @ ocr_body) = example_parse ocr_body \<and>
        extract_text (example_env\<lparr>vision_post := answering (JString (js ''xyz'' @ ocr_body))\<rparr>)
          (Some (js ''uploads/1'')) =
        extract_text (example_env\<lparr>vision_post := answering (JString ocr_body)\<rparr>)
          (Some (js ''uploads/1''))"
    by (rule vision_prefix_ignored [OF h1 ocr_body_begins])
  then show ?thesis
    using h1 ocr_body_begins
    by (simp add: same example_parse_ocr_body extract_text_example)
qed

section \<open>The translator body inside a wrapper\<close>

text \<open>
  C2, as the code has it. The step cuts from the first \<open>[\<close> of the body to the last
  \<open>]\<close> of the body. When the text before the array has no \<open>[\<close> and the text after it
  has no \<open>]\<close>, the cut is exactly the array text, and the translated text is the one
  obtained from parsing the clean array.
\<close>

theorem translation_wrapper_ignored:
  assumes "of_char CHR ''['' \<notin> set prefix" and "of_char CHR '']'' \<notin> set suffix"
    and "array = js ''['' @ elements @ js '']''"
  shows "clean_json_string (prefix @ array @ suffix) = Inr array \<and>
         translation_of parse (JString (prefix @ array @ suffix)) =
           and_then (parse array) translated_text \<and>
         translation_of parse (JString (prefix @ array @ suffix)) =
           translation_of parse (JString array)"
proof -
  have wrapped: "clean_json_string (prefix @ array @ suffix) = Inr array"
    using clean_json_string_wrapped [OF assms(1,2), of elements] by (simp add: assms(3))
  have clean: "clean_json_string array = Inr array"
    using clean_json_string_wrapped [of "[]" "[]" elements] by (simp add: assms(3))
  show ?thesis
    by (simp add: wrapped clean translation_of_JString)
qed

theorem translation_wrapper_ignored_witness:
  "of_char CHR ''['' \<notin> set [0xFEFF :: code_unit] \<and>
   of_char CHR '']'' \<notin> set [0x0D, 0x0A :: code_unit] \<and>
   translator_body = js ''['' @ butlast (tl translator_body) @ js '']'' \<and>
   clean_json_string ([0xFEFF] @ translator_body @ [0x0D, 0x0A]) = Inr translator_body \<and>
   translation_of example_parse (JString ([0xFEFF] @ translator_body @ [0x0D, 0x0A])) =
     Inr (JString (js ''Hello world''))"
proof -
  have h1: "of_char CHR ''['' \<notin> set [0xFEFF :: code_unit]" by simp
  have h2: "of_char CHR '']'' \<notin> set [0x0D, 0x0A :: code_unit]" by simp
  note h3 = translator_body_delimited
  note c = translation_of_translator_body
  have r: "clean_json_string ([0xFEFF] @ translator_body @ [0x0D, 0x0A]) = Inr translator_body"
    "translation_of example_parse (JString ([0xFEFF] @ translator_body @ [0x0D, 0x0A])) =
       translation_of example_parse (JString translator_body)"
    using translation_wrapper_ignored [OF h1 h2 h3, of example_parse] by blast+
  show ?thesis
    using h1 h2 h3 r(1) r(2) [unfolded c] by blast
qed

text \<open>
  The claim as stated covers any wrapper text that is not an array. A log tag before the
  array, or a closing bracket after it, moves the cut: the text handed to \<open>JSON.parse\<close>
  is no longer the array and the request fails, where the clean array gives the
  translation.
\<close>

theorem translation_bracket_in_wrapper_counterexample:
  "clean_json_string (js ''[info] '' @ translator_body) = Inr (js ''[info] '' @ translator_body) \<and>
   translation_of example_parse (JString (js ''[info] '' @ translator_body)) =
     Inl (Thrown (js ''Unexpected token'') None None) \<and>
   clean_json_string (translator_body @ js '' (end]'') = Inr (translator_body @ js '' (end]'') \<and>
   translation_of example_parse (JString (translator_body @ js '' (end]'')) =
     Inl (Thrown (js ''Unexpected token'') None None) \<and>
   translation_of example_parse (JString translator_body) = Inr (JString (js ''Hello world''))"
  by (simp add: translation_of_JString clean_json_string_bracketed example_parse_not_json
      translation_of_translator_body [unfolded translation_of_JString])

section \<open>A body without the opening delimiter\<close>

text \<open>
  C10. A translator body without \<open>[\<close> raises the dedicated error \<open>No JSON found in the
  response.\<close>, which the \<open>catch\<close> block turns into the generic 500. An OCR body without
  \<open>{\<close> raises no error of the handler's own: \<open>indexOf\<close> gives \<open>-1\<close>, \<open>substring(-1)\<close>
  is the whole string, and the step is \<open>JSON.parse\<close> of the whole body, which fails only
  when \<open>JSON.parse\<close> does; a value it returns goes on to the check of the shape like
  any other.
\<close>

theorem missing_delimiter_asymmetry:
  assumes "of_char CHR ''['' \<notin> set translated" and "of_char CHR ''{'' \<notin> set recognised"
  shows "translation_of parse (JString translated) =
           Inl (Error (js ''No JSON found in the response.'')) \<and>
         (ocr_stage env path = Inr (Inr extractedText) \<and>
          translator_post env extractedText = Inr (JString translated) \<longrightarrow>
            extract_text env (Some path) = generic_failure) \<and>
         parse_vision parse recognised = parse recognised \<and>
         (readFileSync env' path' = Inr imageBuffer \<and>
          vision_post env' imageBuffer = Inr (JString recognised) \<and>
          JSON_parse env' recognised = Inl err \<longrightarrow>
            ocr_stage env' path' = Inl err \<and> extract_text env' (Some path') = generic_failure) \<and>
         (readFileSync env' path' = Inr imageBuffer \<and>
          vision_post env' imageBuffer = Inr (JString recognised) \<and>
          JSON_parse env' recognised = Inr visionData \<and>
          vision_regions visionData = None \<longrightarrow>
            extract_text env' (Some path') = invalid_vision_response)"
proof -
  have t: "translation_of p (JString translated) =
           Inl (Error (js ''No JSON found in the response.''))" for p
    using assms(1) by (simp add: translation_of_JString clean_json_string_no_bracket)
  have v: "parse_vision p recognised = p recognised" for p
    using assms(2) by (rule parse_vision_no_brace)
  show ?thesis
    by (auto simp: t v extract_text_Some extract_text_try_def translate_stage_def ocr_stage_def)
qed

theorem missing_delimiter_asymmetry_witness:
  "of_char CHR ''['' \<notin> set (js ''Service Unavailable'') \<and>
   of_char CHR ''{'' \<notin> set (js ''Bad Gateway'') \<and>
   of_char CHR ''{'' \<notin> set (js ''[]'') \<and>
   extract_text translator_html_env (Some (js ''uploads/1'')) = generic_failure \<and>
   parse_vision example_parse (js ''Bad Gateway'') = example_parse (js ''Bad Gateway'') \<and>
   extract_text ocr_html_env (Some (js ''uploads/1'')) = generic_failure \<and>
   extract_text ocr_empty_array_env (Some (js ''uploads/1'')) = invalid_vision_response"
proof -
  let ?p = "js ''uploads/1''"
  let ?unexpected = "Thrown (js ''Unexpected token'') None None"
  note fields = example_env_fields answering_def
  have h1: "of_char CHR ''['' \<notin> set (js ''Service Unavailable'')" by (simp add: js_def)
  have h2: "of_char CHR ''{'' \<notin> set (js ''Bad Gateway'')" by (simp add: js_def)
  have h3: "of_char CHR ''{'' \<notin> set (js ''[]'')" by (simp add: js_def)
  have a: "ocr_stage translator_html_env ?p = Inr (Inr (js ''Hola mundo''))"
    by (rule ocr_stage_example) (simp_all add: translator_html_env_def example_env_fields)
  have b: "translator_post translator_html_env (js ''Hola mundo'') =
             Inr (JString (js ''Service Unavailable''))"
    by (simp add: translator_html_env_def answering_def)
  have c: "readFileSync ocr_html_env ?p = Inr [0xFF, 0xD8]"
    "vision_post ocr_html_env [0xFF, 0xD8] = Inr (JString (js ''Bad Gateway''))"
    "JSON_parse ocr_html_env (js ''Bad Gateway'') = Inl ?unexpected"
    by (simp_all add: ocr_html_env_def fields example_parse_not_json)
  have d: "readFileSync ocr_empty_array_env ?p = Inr [0xFF, 0xD8]"
    "vision_post ocr_empty_array_env [0xFF, 0xD8] = Inr (JString (js ''[]''))"
    "JSON_parse ocr_empty_array_env (js ''[]'') = Inr (JArray [])"
    "vision_regions (JArray []) = None"
    by (simp_all add: ocr_empty_array_env_def fields vision_regions_def get_field_def falsy_def)
  have 1: "extract_text translator_html_env (Some ?p) = generic_failure"
    "parse_vision example_parse (js ''Bad Gateway'') = example_parse (js ''Bad Gateway'')"
    "extract_text ocr_html_env (Some ?p) = generic_failure"
    using missing_delimiter_asymmetry [OF h1 h2, where parse = example_parse
        and env = translator_html_env and path = ?p and extractedText = "js ''Hola mundo''"
        and env' = ocr_html_env and path' = ?p and imageBuffer = "[0xFF, 0xD8]"
        and err = ?unexpected]
      a b c
    by simp_all
  have 2: "extract_text ocr_empty_array_env (Some ?p) = invalid_vision_response"
    using missing_delimiter_asymmetry [OF h1 h3, where env' = ocr_empty_array_env
        and path' = ?p and imageBuffer = "[0xFF, 0xD8]" and visionData = "JArray []"]
      d
    by simp
  show ?thesis using h1 h2 h3 1 2 by blast
qed

section \<open>Properties of the image test\<close>

lemma list_all2_matches_i:
  "list_all2 matches_i ext rest \<longleftrightarrow> map ascii_upper rest = map ascii_upper ext"
proof -
  have "map ascii_upper rest = map ascii_upper ext \<longleftrightarrow>
        list_all2 (=) (map ascii_upper rest) (map ascii_upper ext)"
    by (simp add: list.rel_eq)
  also have "\<dots> \<longleftrightarrow> list_all2 (\<lambda>c p. ascii_upper c = ascii_upper p) rest ext"
    by (simp add: list_all2_map1 list_all2_map2)
  also have "\<dots> \<longleftrightarrow> list_all2 matches_i ext rest"
    by (subst list_all2_conv_all_nth) (auto simp: matches_i_def list_all2_conv_all_nth)
  finally show ?thesis by simp
qed

lemma match_here_iff:
  "match_here t \<longleftrightarrow>
     (\<exists>ext \<in> set image_extensions. map ascii_upper t = map ascii_upper (js ''.'' @ ext))"
proof (cases t)
  case Nil
  then show ?thesis by (simp add: js_def)
next
  case (Cons c rest)
  have dot: "js ''.'' = [0x2E]" by (simp add: js_def)
  show ?thesis
    unfolding Cons dot
    by (auto simp: list_ex_iff list_all2_matches_i matches_i_def)
qed

lemma regex_test_iff_suffix:
  "regex_test s \<longleftrightarrow> (\<exists>pre t. s = pre @ t \<and> match_here t)"
proof (induction s)
  case Nil
  then show ?case by simp
next
  case (Cons c cs)
  show ?case
  proof
    assume "regex_test (c # cs)"
    then consider "match_here (c # cs)" | "regex_test cs" by auto
    then show "\<exists>pre t. c # cs = pre @ t \<and> match_here t"
    proof cases
      case 1
      then have "c # cs = [] @ (c # cs) \<and> match_here (c # cs)" by simp
      then show ?thesis by blast
    next
      case 2
      with Cons.IH obtain pre t where "cs = pre @ t" "match_here t" by blast
      then have "c # cs = (c # pre) @ t \<and> match_here t" by simp
      then show ?thesis by blast
    qed
  next
    assume "\<exists>pre t. c # cs = pre @ t \<and> match_here t"
    then obtain pre t where pt: "c # cs = pre @ t" "match_here t" by blast
    show "regex_test (c # cs)"
    proof (cases pre)
      case Nil
      with pt have "match_here (c # cs)" by simp
      then show ?thesis by simp
    next
      case (Cons p ps)
      with pt have "cs = ps @ t" by simp
      with pt(2) Cons.IH have "regex_test cs" by blast
      then show ?thesis by simp
    qed
  qed
qed

lemma ends_with_map_iff:
  "ends_with (map f s) x \<longleftrightarrow> (\<exists>pre t. s = pre @ t \<and> map f t = x)"
proof
  assume e: "ends_with (map f s) x"
  let ?n = "length s - length x"
  have "s = take ?n s @ drop ?n s" by simp
  moreover have "map f (drop ?n s) = x"
    using e by (simp add: ends_with_def drop_map)
  ultimately show "\<exists>pre t. s = pre @ t \<and> map f t = x" by blast
next
  assume "\<exists>pre t. s = pre @ t \<and> map f t = x"
  then obtain pre t where "s = pre @ t" "map f t = x" by blast
  then show "ends_with (map f s) x"
    by (auto simp: ends_with_def)
qed

text \<open>
  The regular expression accepts exactly the names that end, case-insensitively, with a
  dot and one of the five extensions.
\<close>

lemma regex_test_has_image_extension: "regex_test name \<longleftrightarrow> has_image_extension name"
  unfolding regex_test_iff_suffix match_here_iff has_image_extension_def list_ex_iff
    ends_with_map_iff
  by blast

lemma filter_regex_test: "filter regex_test names = filter has_image_extension names"
  by (simp add: regex_test_has_image_extension cong: filter_cong)

lemma upper_extensions:
  "map (\<lambda>ext. map ascii_upper (js ''.'' @ ext)) image_extensions =
     [js ''.JPG'', js ''.JPEG'', js ''.PNG'', js ''.GIF'', js ''.JFIF'']"
  by (simp add: image_extensions_def ascii_upper_def js_def)

lemma has_image_extension_alt:
  "has_image_extension name \<longleftrightarrow>
     list_ex (ends_with (map ascii_upper name))
       [js ''.JPG'', js ''.JPEG'', js ''.PNG'', js ''.GIF'', js ''.JFIF'']"
  unfolding upper_extensions [symmetric]
  by (simp add: has_image_extension_def list_ex_iff)

lemma filter_mixed_names:
  "filter has_image_extension mixed_names = [js ''cat.PNG'', js ''dog.jpeg'']"
  by (simp add: mixed_names_def has_image_extension_alt ends_with_def ascii_upper_def js_def)

lemma filter_non_image_names: "filter has_image_extension non_image_names = []"
  by (simp add: non_image_names_def has_image_extension_alt ends_with_def ascii_upper_def js_def)

section \<open>Properties of the signing loop\<close>

lemma respond_eq_iff [simp]: "respond a b = respond c d \<longleftrightarrow> a = c \<and> b = d"
  by (simp add: respond_def)

lemma length_read_options [simp]: "length (read_options clock k names) = length names"
  by (induction names arbitrary: k) auto

lemma map_blobName_read_options [simp]: "map blobName (read_options clock k names) = names"
  by (induction names arbitrary: k) auto

lemma nth_read_options:
  "i < length names \<Longrightarrow>
     read_options clock k names ! i =
       \<lparr>blobName = names ! i, permissions = js ''r'', expiresOn = clock (k + i) + 3600 * 1000\<rparr>"
proof (induction names arbitrary: k i)
  case Nil
  then show ?case by simp
next
  case (Cons name names)
  then show ?case by (cases i) auto
qed

text \<open>
  Whatever the outcome, the requests made are those for an initial part of the matching
  names, each with the reading of the clock that belongs to it.
\<close>

lemma sign_images_calls:
  "sign_images sign clock names urls calls = (res, calls') \<Longrightarrow>
     \<exists>ms rest. filter regex_test names = ms @ rest \<and>
       calls' = calls @ read_options clock (length calls) ms"
proof (induction names arbitrary: urls calls)
  case Nil
  then show ?case by simp
next
  case (Cons name names)
  show ?case
  proof (cases "regex_test name")
    case False
    with Cons show ?thesis by simp
  next
    case True
    let ?opts = "\<lparr>blobName = name, permissions = js ''r'',
                  expiresOn = clock (length calls) + 3600 * 1000\<rparr>"
    show ?thesis
    proof (cases "sign ?opts")
      case (Inl err)
      with True Cons.prems have "calls' = calls @ read_options clock (length calls) [name]"
        by (simp add: Let_def)
      moreover have "filter regex_test (name # names) = [name] @ filter regex_test names"
        using True by simp
      ultimately show ?thesis by blast
    next
      case (Inr url)
      with True Cons.prems
      have "sign_images sign clock names (urls @ [url]) (calls @ [?opts]) = (res, calls')"
        by (simp add: Let_def)
      from Cons.IH [OF this] obtain ms rest where
        f: "filter regex_test names = ms @ rest" and
        c: "calls' = (calls @ [?opts]) @ read_options clock (length (calls @ [?opts])) ms"
        by blast
      have "filter regex_test (name # names) = (name # ms) @ rest"
        using True f by simp
      moreover have "calls' = calls @ read_options clock (length calls) (name # ms)"
        using c by simp
      ultimately show ?thesis by blast
    qed
  qed
qed

text \<open>
  When the loop ends normally, every matching name was signed, in order.
\<close>

lemma sign_images_success:
  "sign_images sign clock names urls calls = (Inr urls', calls') \<Longrightarrow>
     calls' = calls @ read_options clock (length calls) (filter regex_test names) \<and>
     (\<exists>us. urls' = urls @ us \<and>
           map sign (read_options clock (length calls) (filter regex_test names)) = map Inr us)"
proof (induction names arbitrary: urls calls)
  case Nil
  then show ?case by simp
next
  case (Cons name names)
  show ?case
  proof (cases "regex_test name")
    case False
    with Cons show ?thesis by simp
  next
    case True
    let ?opts = "\<lparr>blobName = name, permissions = js ''r'',
                  expiresOn = clock (length calls) + 3600 * 1000\<rparr>"
    show ?thesis
    proof (cases "sign ?opts")
      case (Inl err)
      with True Cons.prems show ?thesis by (simp add: Let_def)
    next
      case (Inr url)
      with True Cons.prems
      have "sign_images sign clock names (urls @ [url]) (calls @ [?opts]) = (Inr urls', calls')"
        by (simp add: Let_def)
      from Cons.IH [OF this] obtain us where
        c: "calls' = (calls @ [?opts]) @
              read_options clock (length (calls @ [?opts])) (filter regex_test names)" and
        u: "urls' = (urls @ [url]) @ us" and
        m: "map sign (read_options clock (length (calls @ [?opts])) (filter regex_test names))
              = map Inr us"
        by blast
      have "urls' = urls @ (url # us)" using u by simp
      moreover have "map sign (read_options clock (length calls) (filter regex_test (name # names)))
              = map Inr (url # us)"
        using True Inr m by simp
      moreover have "calls' = calls @ read_options clock (length calls) (filter regex_test (name # names))"
        using True c by simp
      ultimately show ?thesis by blast
    qed
  qed
qed

text \<open>
  When the signer resolves every request for a matching name, the loop ends normally
  with the URLs in the order of the listing.
\<close>

lemma sign_images_all_signed:
  "map sign (read_options clock (length calls) (filter regex_test names)) = map Inr us \<Longrightarrow>
   sign_images sign clock names urls calls =
     (Inr (urls @ us), calls @ read_options clock (length calls) (filter regex_test names))"
proof (induction names arbitrary: urls calls us)
  case Nil
  then show ?case by simp
next
  case (Cons name names)
  show ?case
  proof (cases "regex_test name")
    case False
    with Cons show ?thesis by simp
  next
    case True
    let ?opts = "\<lparr>blobName = name, permissions = js ''r'',
                  expiresOn = clock (length calls) + 3600 * 1000\<rparr>"
    from True Cons.prems obtain url us' where us: "us = url # us'" and
      s: "sign ?opts = Inr url" and
      m: "map sign (read_options clock (Suc (length calls)) (filter regex_test names)) = map Inr us'"
      by (cases us) auto
    have "sign_images sign clock names (urls @ [url]) (calls @ [?opts]) =
          (Inr ((urls @ [url]) @ us'),
           (calls @ [?opts]) @ read_options clock (length (calls @ [?opts])) (filter regex_test names))"
      by (rule Cons.IH) (simp add: m)
    then show ?thesis using True s us by (simp add: Let_def)
  qed
qed

lemma sign_images_none:
  "filter regex_test names = [] \<Longrightarrow>
     sign_images sign clock names urls calls = (Inr urls, calls)"
  by (induction names arbitrary: urls calls) (auto split: if_splits)

lemma snd_get_images:
  "snd (get_images sign clock listing) = snd (sign_images sign clock (fst listing) [] [])"
  by (simp add: get_images_def split: prod.splits sum.splits option.splits)

lemma get_images_ok:
  assumes "fst (get_images sign clock listing) = respond 200 (JArray (map JString urls))"
  shows "\<exists>calls. sign_images sign clock (fst listing) [] [] = (Inr urls, calls)"
proof -
  obtain res calls where s: "sign_images sign clock (fst listing) [] [] = (res, calls)"
    by (cases "sign_images sign clock (fst listing) [] []")
  have inj: "map JString us = map JString urls \<Longrightarrow> us = urls" for us
    by (simp add: inj_on_def inj_map_eq_map [of JString])
  show ?thesis
    using assms s inj
    by (auto simp: get_images_def split: sum.splits option.splits if_splits)
qed

lemma read_options_mixed:
  "read_options example_clock 0 [js ''cat.PNG'', js ''dog.jpeg''] =
      [\<lparr>blobName = js ''cat.PNG'', permissions = js ''r'', expiresOn = 1700003600000\<rparr>,
       \<lparr>blobName = js ''dog.jpeg'', permissions = js ''r'', expiresOn = 1700003600007\<rparr>]"
  by (simp add: example_clock_def)

lemma example_signer_mixed:
  "map example_signer (read_options example_clock 0 [js ''cat.PNG'', js ''dog.jpeg'']) =
     map Inr [js ''https://blob.example/cat.PNG?sp=r'', js ''https://blob.example/dog.jpeg?sp=r'']"
  unfolding read_options_mixed by (simp add: example_signer_def js_def)

lemma get_images_mixed:
  "get_images example_signer example_clock (mixed_names, None) =
     (respond 200 (JArray [JString (js ''https://blob.example/cat.PNG?sp=r''),
                           JString (js ''https://blob.example/dog.jpeg?sp=r'')]),
      [\<lparr>blobName = js ''cat.PNG'', permissions = js ''r'', expiresOn = 1700003600000\<rparr>,
       \<lparr>blobName = js ''dog.jpeg'', permissions = js ''r'', expiresOn = 1700003600007\<rparr>])"
proof -
  have "map example_signer (read_options example_clock (length ([] :: sas_options list))
          (filter regex_test mixed_names)) =
        map Inr [js ''https://blob.example/cat.PNG?sp=r'', js ''https://blob.example/dog.jpeg?sp=r'']"
    unfolding filter_regex_test filter_mixed_names using example_signer_mixed by simp
  from sign_images_all_signed [OF this, of "[]"] show ?thesis
    unfolding filter_regex_test filter_mixed_names
    by (simp add: get_images_def read_options_mixed [simplified])
qed

section \<open>The image listing\<close>

text \<open>
  C4. When the listing succeeds and no blob name has an image extension, \<open>/get-images\<close>
  answers 404 with the error body \<open>No images found\<close> and signs nothing, whatever the
  number of blobs in the container.
\<close>

theorem get_images_not_found:
  assumes "filter has_image_extension names = []"
  shows "get_images generateSasUrl clock (names, None) =
           (respond 404 (JObject [(js ''error'', JString (js ''No images found''))]), [])"
  using assms
  by (simp add: get_images_def sign_images_none filter_regex_test)

theorem get_images_not_found_witness:
  "filter has_image_extension non_image_names = [] \<and>
   get_images example_signer example_clock (non_image_names, None) =
     (respond 404 (JObject [(js ''error'', JString (js ''No images found''))]), [])"
  using get_images_not_found [OF filter_non_image_names, of example_signer example_clock]
    filter_non_image_names
  by simp

text \<open>
  C5. Whenever \<open>/get-images\<close> answers a listing with 200, the body is a sequence with
  one URL per name that has an image extension, in the order of the listing: the URL
  the signer gave for the read request made for that name. Its length is the number of
  matching names, and the other names play no part. It answers so whenever the listing
  succeeds, at least one name matches and the signer resolves every request.
\<close>

theorem get_images_one_url_per_image:
  "(fst (get_images generateSasUrl clock (names, None)) =
      respond 200 (JArray (map JString returned)) \<longrightarrow>
      length returned = length (filter has_image_extension names) \<and>
      map generateSasUrl (read_options clock 0 (filter has_image_extension names)) =
        map Inr returned \<and>
      map blobName (read_options clock 0 (filter has_image_extension names)) =
        filter has_image_extension names) \<and>
   (matched = filter has_image_extension names \<and> matched \<noteq> [] \<and>
    map generateSasUrl (read_options clock 0 matched) = map Inr urls \<longrightarrow>
      get_images generateSasUrl clock (names, None) =
        (respond 200 (JArray (map JString urls)), read_options clock 0 matched))"
proof (intro conjI impI)
  assume "fst (get_images generateSasUrl clock (names, None)) =
      respond 200 (JArray (map JString returned))"
  from get_images_ok [OF this] obtain calls where
    s: "sign_images generateSasUrl clock names [] [] = (Inr returned, calls)" by auto
  from sign_images_success [OF s]
  have m: "map generateSasUrl (read_options clock 0 (filter has_image_extension names)) =
        map Inr returned"
    by (auto simp: filter_regex_test)
  then have "length (map generateSasUrl (read_options clock 0 (filter has_image_extension names))) =
        length (map Inr returned :: (js_error + jsstring) list)"
    by simp
  then show "length returned = length (filter has_image_extension names)" by simp
  show "map generateSasUrl (read_options clock 0 (filter has_image_extension names)) =
        map Inr returned"
    by (rule m)
  show "map blobName (read_options clock 0 (filter has_image_extension names)) =
        filter has_image_extension names"
    by simp
next
  assume "matched = filter has_image_extension names \<and> matched \<noteq> [] \<and>
    map generateSasUrl (read_options clock 0 matched) = map Inr urls"
  then have a1: "matched = filter has_image_extension names" and a2: "matched \<noteq> []"
    and a3: "map generateSasUrl (read_options clock 0 matched) = map Inr urls"
    by blast+
  have m: "map generateSasUrl (read_options clock (length ([] :: sas_options list))
             (filter regex_test names)) = map Inr urls"
    using a1 a3 by (simp add: filter_regex_test)
  have s: "sign_images generateSasUrl clock names [] [] =
        (Inr urls, read_options clock 0 matched)"
    using sign_images_all_signed [OF m, of "[]"] a1 by (simp add: filter_regex_test)
  have "length (map generateSasUrl (read_options clock 0 matched)) =
        length (map Inr urls :: (js_error + jsstring) list)"
    using a3 by simp
  then have "length urls = length matched" by simp
  then have "urls \<noteq> []" using a2 by auto
  then show "get_images generateSasUrl clock (names, None) =
        (respond 200 (JArray (map JString urls)), read_options clock 0 matched)"
    using s by (simp add: get_images_def)
qed

theorem get_images_one_url_per_image_witness:
  "[js ''cat.PNG'', js ''dog.jpeg''] = filter has_image_extension mixed_names \<and>
   map example_signer (read_options example_clock 0 [js ''cat.PNG'', js ''dog.jpeg'']) =
     map Inr [js ''https://blob.example/cat.PNG?sp=r'', js ''https://blob.example/dog.jpeg?sp=r''] \<and>
   get_images example_signer example_clock (mixed_names, None) =
     (respond 200 (JArray [JString (js ''https://blob.example/cat.PNG?sp=r''),
                           JString (js ''https://blob.example/dog.jpeg?sp=r'')]),
      [\<lparr>blobName = js ''cat.PNG'', permissions = js ''r'', expiresOn = 1700003600000\<rparr>,
       \<lparr>blobName = js ''dog.jpeg'', permissions = js ''r'', expiresOn = 1700003600007\<rparr>]) \<and>
   length [js ''https://blob.example/cat.PNG?sp=r'', js ''https://blob.example/dog.jpeg?sp=r''] =
     length (filter has_image_extension mixed_names)"
proof -
  let ?matched = "[js ''cat.PNG'', js ''dog.jpeg'']"
  let ?urls = "[js ''https://blob.example/cat.PNG?sp=r'', js ''https://blob.example/dog.jpeg?sp=r'']"
  note th = get_images_one_url_per_image [where generateSasUrl = example_signer
      and clock = example_clock and names = mixed_names and matched = ?matched
      and urls = ?urls and returned = ?urls]
  have h1: "?matched = filter has_image_extension mixed_names"
    by (simp add: filter_mixed_names)
  have h2: "?matched \<noteq> []" by simp
  note h3 = example_signer_mixed
  have g: "get_images example_signer example_clock (mixed_names, None) =
     (respond 200 (JArray (map JString ?urls)), read_options example_clock 0 ?matched)"
    using th h1 h2 h3 by blast
  then have "fst (get_images example_signer example_clock (mixed_names, None)) =
      respond 200 (JArray (map JString ?urls))"
    by simp
  with th have l: "length ?urls = length (filter has_image_extension mixed_names)"
    by blast
  show ?thesis
    using g [unfolded read_options_mixed] h1 h3 l by simp
qed

section \<open>Scope and expiry of the signed URLs\<close>

text \<open>
  C6. \<open>/generate-sas-url/:blobName\<close> makes one signing request, for the named blob, with
  permission \<open>w\<close> and an expiry \<open>3600 * 1000\<close> milliseconds after the time of issuance,
  and the URL it returns is the answer to that request. Every signing request of
  \<open>/get-images\<close> has permission \<open>r\<close> and an expiry \<open>3600 * 1000\<close> milliseconds after the
  reading of the clock made for it, and the URLs it returns are the answers to these
  requests.
\<close>

theorem signed_url_scope_and_expiry:
  "snd (generate_sas_url generateSasUrl now blob) =
     [\<lparr>blobName = blob, permissions = js ''w'', expiresOn = now + 3600 * 1000\<rparr>] \<and>
   (fst (generate_sas_url generateSasUrl now blob) =
      respond 200 (JObject [(js ''sasUrl'', JString url)]) \<longrightarrow>
    generateSasUrl \<lparr>blobName = blob, permissions = js ''w'', expiresOn = now + 3600 * 1000\<rparr>
      = Inr url) \<and>
   (\<forall>k < length (snd (get_images generateSasUrl clock listing)).
      permissions (snd (get_images generateSasUrl clock listing) ! k) = js ''r'' \<and>
      expiresOn (snd (get_images generateSasUrl clock listing) ! k) = clock k + 3600 * 1000) \<and>
   (fst (get_images generateSasUrl clock listing) = respond 200 (JArray (map JString urls)) \<longrightarrow>
      map generateSasUrl (snd (get_images generateSasUrl clock listing)) = map Inr urls)"
proof (intro conjI impI allI)
  show "snd (generate_sas_url generateSasUrl now blob) =
     [\<lparr>blobName = blob, permissions = js ''w'', expiresOn = now + 3600 * 1000\<rparr>]"
    by (simp add: generate_sas_url_def Let_def split: sum.splits)
next
  assume "fst (generate_sas_url generateSasUrl now blob) =
      respond 200 (JObject [(js ''sasUrl'', JString url)])"
  then show "generateSasUrl \<lparr>blobName = blob, permissions = js ''w'',
      expiresOn = now + 3600 * 1000\<rparr> = Inr url"
    by (simp add: generate_sas_url_def Let_def split: sum.splits)
next
  fix k
  assume k: "k < length (snd (get_images generateSasUrl clock listing))"
  obtain res calls where s: "sign_images generateSasUrl clock (fst listing) [] [] = (res, calls)"
    by (cases "sign_images generateSasUrl clock (fst listing) [] []")
  from sign_images_calls [OF s] obtain ms where c: "calls = read_options clock 0 ms"
    by auto
  have "snd (get_images generateSasUrl clock listing) = read_options clock 0 ms"
    using s c by (simp add: snd_get_images)
  then show "permissions (snd (get_images generateSasUrl clock listing) ! k) = js ''r''"
    and "expiresOn (snd (get_images generateSasUrl clock listing) ! k) = clock k + 3600 * 1000"
    using k by (simp_all add: nth_read_options)
next
  assume "fst (get_images generateSasUrl clock listing) = respond 200 (JArray (map JString urls))"
  from get_images_ok [OF this] obtain calls where
    s: "sign_images generateSasUrl clock (fst listing) [] [] = (Inr urls, calls)" by blast
  from sign_images_success [OF s]
  have "calls = read_options clock 0 (filter regex_test (fst listing))"
    and "map generateSasUrl (read_options clock 0 (filter regex_test (fst listing))) = map Inr urls"
    by auto
  then show "map generateSasUrl (snd (get_images generateSasUrl clock listing)) = map Inr urls"
    using s by (simp add: snd_get_images)
qed

theorem signed_url_scope_and_expiry_witness:
  "generate_sas_url example_signer 1700000000000 (js ''upload.png'') =
     (respond 200 (JObject [(js ''sasUrl'', JString (js ''https://blob.example/upload.png?sp=w''))]),
      [\<lparr>blobName = js ''upload.png'', permissions = js ''w'', expiresOn = 1700003600000\<rparr>]) \<and>
   example_signer \<lparr>blobName = js ''upload.png'', permissions = js ''w'', expiresOn = 1700003600000\<rparr>
     = Inr (js ''https://blob.example/upload.png?sp=w'') \<and>
   length (snd (get_images example_signer example_clock (mixed_names, None))) = 2 \<and>
   permissions (snd (get_images example_signer example_clock (mixed_names, None)) ! 1) = js ''r'' \<and>
   expiresOn (snd (get_images example_signer example_clock (mixed_names, None)) ! 1) =
     example_clock 1 + 3600 * 1000 \<and>
   map example_signer (snd (get_images example_signer example_clock (mixed_names, None))) =
     map Inr [js ''https://blob.example/cat.PNG?sp=r'', js ''https://blob.example/dog.jpeg?sp=r'']"
proof -
  let ?calls = "snd (get_images example_signer example_clock (mixed_names, None))"
  let ?urls = "[js ''https://blob.example/cat.PNG?sp=r'', js ''https://blob.example/dog.jpeg?sp=r'']"
  have g: "generate_sas_url example_signer 1700000000000 (js ''upload.png'') =
     (respond 200 (JObject [(js ''sasUrl'', JString (js ''https://blob.example/upload.png?sp=w''))]),
      [\<lparr>blobName = js ''upload.png'', permissions = js ''w'', expiresOn = 1700003600000\<rparr>])"
    by (simp add: generate_sas_url_def example_signer_def js_def)
  have l: "length ?calls = 2" by (simp add: get_images_mixed)
  have f: "fst (get_images example_signer example_clock (mixed_names, None)) =
      respond 200 (JArray (map JString ?urls))"
    by (simp add: get_images_mixed)
  have th: "(fst (generate_sas_url example_signer 1700000000000 (js ''upload.png'')) =
      respond 200 (JObject [(js ''sasUrl'', JString (js ''https://blob.example/upload.png?sp=w''))]) \<longrightarrow>
    example_signer \<lparr>blobName = js ''upload.png'', permissions = js ''w'',
        expiresOn = 1700000000000 + 3600 * 1000\<rparr>
      = Inr (js ''https://blob.example/upload.png?sp=w'')) \<and>
   (\<forall>k < length ?calls.
      permissions (?calls ! k) = js ''r'' \<and> expiresOn (?calls ! k) = example_clock k + 3600 * 1000) \<and>
   (fst (get_images example_signer example_clock (mixed_names, None)) =
       respond 200 (JArray (map JString ?urls)) \<longrightarrow>
      map example_signer ?calls = map Inr ?urls)"
    using signed_url_scope_and_expiry [of example_signer 1700000000000 "js ''upload.png''"
        "js ''https://blob.example/upload.png?sp=w''" example_clock "(mixed_names, None)" ?urls]
    by blast
  have a: "example_signer \<lparr>blobName = js ''upload.png'', permissions = js ''w'',
        expiresOn = 1700003600000\<rparr> = Inr (js ''https://blob.example/upload.png?sp=w'')"
    using th g by simp
  have b: "permissions (?calls ! 1) = js ''r'' \<and>
           expiresOn (?calls ! 1) = example_clock 1 + 3600 * 1000"
    using th l by simp
  have c: "map example_signer ?calls = map Inr ?urls"
    using th f by blast
  show ?thesis using g a l b c by blast
qed

section \<open>The chat relay\<close>

lemma invalid_prompt_iff:
  "invalid_prompt prompt \<longleftrightarrow>
     prompt = None \<or> (\<exists>v. prompt = Some v \<and> (\<forall>s. v \<noteq> JString s)) \<or>
     (\<exists>s. prompt = Some (JString s) \<and> trim s = [])"
  by (auto simp: invalid_prompt_def split: option.splits json.splits)

lemma read_field_not_null:
  "req_body \<noteq> JNull \<Longrightarrow> read_field (Some req_body) name = Inr (get_field req_body name)"
  by (cases req_body) (simp_all add: read_field_def)

lemma get_field_ask_body: "get_field (ask_body prompt) (js ''prompt'') = Some (JString prompt)"
  by (simp add: ask_body_def get_field_def)

text \<open>
  C3. \<open>req.body\<close> is the value \<open>express.json()\<close> parsed, an object or an array, never
  \<open>null\<close>. If its \<open>prompt\<close> is a string that is not empty after trimming, the request
  passes the validation, exactly one upstream call is made, with the prompt as the only
  message, and on upstream success the answer is 200 with the field \<open>response\<close>. If the
  \<open>prompt\<close> is missing, is not a string, or is empty after trimming, the answer is 400 and
  no upstream call is made.
\<close>

theorem ask_prompt_validation:
  "(get_field req_body (js ''prompt'') = Some (JString prompt) \<and> trim prompt \<noteq> [] \<and>
    request = \<lparr>model = js ''claude-3-5-sonnet-20241022'', max_tokens = 1024,
               messages = [(js ''user'', Some (JString prompt))]\<rparr> \<longrightarrow>
      snd (ask create req_body) = [request] \<and>
      (create request = Inr content \<longrightarrow>
         fst (ask create req_body) = respond 200 (JObject [(js ''response'', content)]))) \<and>
   (req_body \<noteq> JNull \<and>
    (get_field req_body (js ''prompt'') = None \<or>
     (\<exists>v. get_field req_body (js ''prompt'') = Some v \<and> (\<forall>s. v \<noteq> JString s)) \<or>
     (\<exists>s. get_field req_body (js ''prompt'') = Some (JString s) \<and> trim s = [])) \<longrightarrow>
      ask create req_body =
        (respond 400 (JObject [(js ''error'', JString (js ''Invalid prompt format''))]), []))"
proof (intro conjI impI)
  assume a: "get_field req_body (js ''prompt'') = Some (JString prompt) \<and> trim prompt \<noteq> [] \<and>
    request = \<lparr>model = js ''claude-3-5-sonnet-20241022'', max_tokens = 1024,
               messages = [(js ''user'', Some (JString prompt))]\<rparr>"
  then have nn: "req_body \<noteq> JNull" by (auto simp: get_field_def)
  have valid: "\<not> invalid_prompt (get_field req_body (js ''prompt''))"
    using a by (simp add: invalid_prompt_def)
  show "snd (ask create req_body) = [request]"
    using a valid
    by (simp add: ask_def validateRequest_def ask_handler_def read_field_not_null [OF nn] Let_def
        split: sum.splits)
  show "fst (ask create req_body) = respond 200 (JObject [(js ''response'', content)])"
    if "create request = Inr content"
    using a valid that
    by (simp add: ask_def validateRequest_def ask_handler_def read_field_not_null [OF nn] Let_def)
next
  assume b: "req_body \<noteq> JNull \<and>
    (get_field req_body (js ''prompt'') = None \<or>
     (\<exists>v. get_field req_body (js ''prompt'') = Some v \<and> (\<forall>s. v \<noteq> JString s)) \<or>
     (\<exists>s. get_field req_body (js ''prompt'') = Some (JString s) \<and> trim s = []))"
  then have "invalid_prompt (get_field req_body (js ''prompt''))"
    by (simp add: invalid_prompt_iff)
  then show "ask create req_body =
        (respond 400 (JObject [(js ''error'', JString (js ''Invalid prompt format''))]), [])"
    using b by (simp add: ask_def validateRequest_def read_field_not_null)
qed

theorem ask_prompt_validation_witness:
  "get_field (ask_body (js '' Hi '')) (js ''prompt'') = Some (JString (js '' Hi '')) \<and>
   trim (js '' Hi '') \<noteq> [] \<and>
   ask (answering content_blocks) (ask_body (js '' Hi '')) =
     (respond 200 (JObject [(js ''response'', content_blocks)]),
      [\<lparr>model = js ''claude-3-5-sonnet-20241022'', max_tokens = 1024,
        messages = [(js ''user'', Some (JString (js '' Hi '')))]\<rparr>]) \<and>
   ask_body [0x20, 0x09, 0xFEFF] \<noteq> JNull \<and>
   get_field (ask_body [0x20, 0x09, 0xFEFF]) (js ''prompt'') = Some (JString [0x20, 0x09, 0xFEFF]) \<and>
   trim [0x20, 0x09, 0xFEFF] = [] \<and>
   ask (answering content_blocks) (ask_body [0x20, 0x09, 0xFEFF]) =
     (respond 400 (JObject [(js ''error'', JString (js ''Invalid prompt format''))]), [])"
proof -
  let ?request = "\<lparr>model = js ''claude-3-5-sonnet-20241022'', max_tokens = 1024,
        messages = [(js ''user'', Some (JString (js '' Hi '')))]\<rparr>"
  note g1 = get_field_ask_body [of "js '' Hi ''"]
  note t1 = trim_examples(1)
  have c1: "answering content_blocks ?request = Inr content_blocks"
    by (simp add: answering_def)
  have n2: "ask_body [0x20, 0x09, 0xFEFF] \<noteq> JNull" by (simp add: ask_body_def)
  note g2 = get_field_ask_body [of "[0x20, 0x09, 0xFEFF]"]
  note t2 = trim_examples(2)
  have ok: "snd (ask (answering content_blocks) (ask_body (js '' Hi ''))) = [?request] \<and>
      fst (ask (answering content_blocks) (ask_body (js '' Hi ''))) =
        respond 200 (JObject [(js ''response'', content_blocks)])"
    using ask_prompt_validation [of "ask_body (js '' Hi '')" "js '' Hi ''" ?request
        "answering content_blocks" content_blocks] g1 t1 c1
    by blast
  have bad: "ask (answering content_blocks) (ask_body [0x20, 0x09, 0xFEFF]) =
     (respond 400 (JObject [(js ''error'', JString (js ''Invalid prompt format''))]), [])"
    using ask_prompt_validation [of "ask_body [0x20, 0x09, 0xFEFF]" _ _ "answering content_blocks"]
      n2 g2 t2
    by blast
  show ?thesis
    using g1 t1 ok n2 g2 t2 bad by (simp add: prod_eq_iff)
qed

lemma ask_content_unmodified:
  assumes "get_field req_body (js ''prompt'') = Some (JString prompt)"
    and "trim prompt \<noteq> []"
    and "create \<lparr>model = js ''claude-3-5-sonnet-20241022'', max_tokens = 1024,
            messages = [(js ''user'', Some (JString prompt))]\<rparr> = Inr content"
  shows "fst (ask create req_body) = respond 200 (JObject [(js ''response'', content)])"
proof -
  have nn: "req_body \<noteq> JNull" using assms(1) by (auto simp: get_field_def)
  have valid: "\<not> invalid_prompt (get_field req_body (js ''prompt''))"
    using assms(1,2) by (simp add: invalid_prompt_def)
  show ?thesis
    using assms valid
    by (simp add: ask_def validateRequest_def ask_handler_def read_field_not_null [OF nn] Let_def)
qed

lemma test_api_content_unmodified:
  assumes "create \<lparr>model = js ''claude-3-5-sonnet-20241022'', max_tokens = 10,
            messages = [(js ''user'', Some (JString (js ''test'')))]\<rparr> = Inr content"
  shows "fst (test_api create t0 t1) =
        respond 200 (JObject [(js ''status'', JString (js ''success'')),
                              (js ''responseTime'', JNumber (show_int (t1 - t0))),
                              (js ''content'', content)])"
  using assms by (simp add: test_api_def Let_def)

lemma join_content_blocks:
  "join (map Some [JObject [(js ''type'', JString (js ''text'')),
                            (js ''text'', JString (js ''Hello!''))]]) (js '' '') =
     Inr (js ''[object Object]'')"
  by (simp add: join_def element_string_def element_convertible_def js_def)

text \<open>
  C7. The claim has both chat endpoints return the provider's content unmodified, with no
  joining. \<open>/ask\<close> does so in both variants of the server, and so does \<open>/test-api\<close> of
  \<open>server.js\<close> (\<open>ask_content_unmodified\<close>, \<open>test_api_content_unmodified\<close>). \<open>/test-api\<close>
  of the variant with \<open>/extract-text\<close> answers with \<open>message.content.join(" ")\<close> instead.
  The provider's content is an array of blocks, which are objects, so the join renders
  each of them as \<open>[object Object]\<close>. Here the three handlers are evaluated on the same
  upstream answer, a content of one text block \<open>{type: "text", text: "Hello!"}\<close>, with the
  clock read at 1700000000000 and 1700000000850: the first two answer with the block, the
  third with the string \<open>[object Object]\<close>, in which nothing of the content is left.
\<close>

theorem test_api_joined_content_diverges:
  "fst (ask (answering content_blocks) (ask_body (js '' Hi ''))) =
     respond 200 (JObject [(js ''response'', content_blocks)]) \<and>
   fst (test_api (answering content_blocks) 1700000000000 1700000000850) =
     respond 200 (JObject [(js ''status'', JString (js ''success'')),
                           (js ''responseTime'', JNumber (js ''850'')),
                           (js ''content'', content_blocks)]) \<and>
   fst (test_api_joined (answering content_blocks) 1700000000000 1700000000850) =
     respond 200 (JObject [(js ''status'', JString (js ''success'')),
                           (js ''responseTime'', JNumber (js ''850'')),
                           (js ''content'', JString (js ''[object Object]''))]) \<and>
   JString (js ''[object Object]'') \<noteq> content_blocks"
proof -
  have "fst (ask (answering content_blocks) (ask_body (js '' Hi ''))) =
     respond 200 (JObject [(js ''response'', content_blocks)])"
    using get_field_ask_body [of "js '' Hi ''"] trim_examples(1)
    by (intro ask_content_unmodified [where prompt = "js '' Hi ''"])
      (simp_all add: answering_def)
  moreover have "fst (test_api (answering content_blocks) 1700000000000 1700000000850) =
     respond 200 (JObject [(js ''status'', JString (js ''success'')),
                           (js ''responseTime'', JNumber (js ''850'')),
                           (js ''content'', content_blocks)])"
    using test_api_content_unmodified [of "answering content_blocks" content_blocks
        1700000000000 1700000000850] show_int_850
    by (simp add: answering_def)
  moreover have "fst (test_api_joined (answering content_blocks) 1700000000000 1700000000850) =
     respond 200 (JObject [(js ''status'', JString (js ''success'')),
                           (js ''responseTime'', JNumber (js ''850'')),
                           (js ''content'', JString (js ''[object Object]''))]) \<and>
   JString (js ''[object Object]'') \<noteq> content_blocks"
    using show_int_850 join_content_blocks
    by (simp add: test_api_joined_def content_join_def answering_def content_blocks_def)
  ultimately show ?thesis by blast
qed


section \<open>Failures of the OCR and translation pipeline\<close>

lemma ocr_stage_early:
  "ocr_stage env path = Inr (Inl res) \<Longrightarrow> res = invalid_vision_response"
  by (auto simp: ocr_stage_def and_then_def split: sum.splits option.splits)

lemma extracted_text_nonempty: "extracted_text regions = Inr extractedText \<Longrightarrow> extractedText \<noteq> []"
  by (auto simp: extracted_text_def and_then_def Let_def split: sum.splits if_splits)

lemma ocr_stage_text_nonempty:
  "ocr_stage env path = Inr (Inr extractedText) \<Longrightarrow> extractedText \<noteq> []"
  by (auto simp: ocr_stage_def and_then_def split: sum.splits option.splits
      dest: extracted_text_nonempty)

lemma translated_text_truthy:
  "translated_text translateData = Inr translatedText \<Longrightarrow> truthy translatedText"
  by (auto simp: translated_text_def Let_def falsy_def
      split: json.splits list.splits option.splits if_splits)

lemma translation_of_truthy:
  "translation_of parse data = Inr translatedText \<Longrightarrow> truthy translatedText"
  by (auto simp: translation_of_def and_then_def split: sum.splits
      dest: translated_text_truthy)

lemma translate_stage_ok:
  "translate_stage env path extractedText = Inr res \<Longrightarrow>
     \<exists>translatedText. truthy translatedText \<and> res = success_response extractedText translatedText"
  by (auto simp: translate_stage_def and_then_def split: sum.splits
      dest: translation_of_truthy)

text \<open>
  Once a file is there, the handler has three answers: the generic failure, the failure
  for an invalid OCR shape, and the success with both texts.
\<close>

lemma extract_text_shapes:
  "extract_text env (Some path) = generic_failure \<or>
   extract_text env (Some path) = invalid_vision_response \<or>
   (\<exists>extractedText translatedText.
      extractedText \<noteq> [] \<and> truthy translatedText \<and>
      extract_text env (Some path) = success_response extractedText translatedText)"
proof (cases "extract_text_try env path")
  case (Inl err)
  then show ?thesis by (simp add: extract_text_Some)
next
  case (Inr res)
  then obtain stage where st: "ocr_stage env path = Inr stage"
    by (auto simp: extract_text_try_def and_then_def split: sum.splits)
  show ?thesis
  proof (cases stage)
    case (Inl early)
    then have "res = invalid_vision_response"
      using Inr st ocr_stage_early [of env path early] by (simp add: extract_text_try_def)
    then show ?thesis using Inr by (simp add: extract_text_Some)
  next
    case continue: (Inr extractedText)
    then have "translate_stage env path extractedText = Inr res"
      using Inr st by (simp add: extract_text_try_def)
    from translate_stage_ok [OF this] obtain translatedText where
      "truthy translatedText" "res = success_response extractedText translatedText" by blast
    moreover have "extractedText \<noteq> []"
      using st continue ocr_stage_text_nonempty by blast
    ultimately show ?thesis using Inr by (auto simp: extract_text_Some)
  qed
qed

text \<open>
  C8. Once a file is there, \<open>/extract-text\<close> answers in one of three ways: 500 with the
  fixed message \<open>An error occurred while processing the image.\<close>, 500 with the fixed
  message \<open>Invalid response from Vision API.\<close>, or 200 with a non-empty \<open>extractedText\<close>
  and a \<open>translatedText\<close> that is not \<open>undefined\<close>. Each failure gives one of the two
  500 answers, whatever the error was: an unreadable file, an OCR provider error, an OCR
  body that does not parse, an OCR value of invalid shape, no extracted text, a
  translation provider error, a translation of invalid shape.
\<close>

theorem extract_text_failures_are_generic:
  "(extract_text env (Some path) = generic_failure \<or>
    extract_text env (Some path) = invalid_vision_response \<or>
    (\<exists>extractedText translatedText.
       extractedText \<noteq> [] \<and> truthy translatedText \<and>
       extract_text env (Some path) = success_response extractedText translatedText)) \<and>
   (readFileSync env path = Inl err \<longrightarrow> extract_text env (Some path) = generic_failure) \<and>
   (readFileSync env path = Inr imageBuffer \<and> vision_post env imageBuffer = Inl err \<longrightarrow>
      extract_text env (Some path) = generic_failure) \<and>
   (readFileSync env path = Inr imageBuffer \<and> vision_post env imageBuffer = Inr data \<and>
    toString data = Inr rawResponse \<and> parse_vision (JSON_parse env) rawResponse = Inl err \<longrightarrow>
      extract_text env (Some path) = generic_failure) \<and>
   (readFileSync env path = Inr imageBuffer \<and> vision_post env imageBuffer = Inr data \<and>
    toString data = Inr rawResponse \<and>
    parse_vision (JSON_parse env) rawResponse = Inr visionData \<and>
    vision_regions visionData = None \<longrightarrow>
      extract_text env (Some path) = invalid_vision_response) \<and>
   (readFileSync env path = Inr imageBuffer \<and> vision_post env imageBuffer = Inr data \<and>
    toString data = Inr rawResponse \<and>
    parse_vision (JSON_parse env) rawResponse = Inr visionData \<and>
    vision_regions visionData = Some regions \<and> extracted_text regions = Inl err \<longrightarrow>
      extract_text env (Some path) = generic_failure) \<and>
   (ocr_stage env path = Inr (Inr extractedText) \<and>
    translator_post env extractedText = Inl err \<longrightarrow>
      extract_text env (Some path) = generic_failure) \<and>
   (ocr_stage env path = Inr (Inr extractedText) \<and>
    translator_post env extractedText = Inr tdata \<and>
    translation_of (JSON_parse env) tdata = Inl err \<longrightarrow>
      extract_text env (Some path) = generic_failure) \<and>
   generic_failure =
     \<lparr>status = 500,
      body = JObject [(js ''error'',
                       JString (js ''An error occurred while processing the image.''))]\<rparr> \<and>
   invalid_vision_response =
     \<lparr>status = 500,
      body = JObject [(js ''error'', JString (js ''Invalid response from Vision API.''))]\<rparr>"
proof (intro conjI impI)
  show "extract_text env (Some path) = generic_failure \<or>
    extract_text env (Some path) = invalid_vision_response \<or>
    (\<exists>extractedText translatedText.
       extractedText \<noteq> [] \<and> truthy translatedText \<and>
       extract_text env (Some path) = success_response extractedText translatedText)"
    by (rule extract_text_shapes)
qed (simp_all add: extract_text_Some extract_text_try_def ocr_stage_def translate_stage_def
      generic_failure_def invalid_vision_response_def respond_def)

theorem extract_text_failures_are_generic_witness:
  "extract_text unreadable_env (Some (js ''uploads/1'')) = generic_failure \<and>
   extract_text ocr_down_env (Some (js ''uploads/1'')) = generic_failure \<and>
   extract_text ocr_html_env (Some (js ''uploads/1'')) = generic_failure \<and>
   extract_text ocr_empty_object_env (Some (js ''uploads/1'')) = invalid_vision_response \<and>
   extract_text ocr_no_regions_env (Some (js ''uploads/1'')) = generic_failure \<and>
   extract_text translator_down_env (Some (js ''uploads/1'')) = generic_failure \<and>
   extract_text translator_html_env (Some (js ''uploads/1'')) = generic_failure \<and>
   extract_text example_env (Some (js ''uploads/1'')) =
     success_response (js ''Hola mundo'') (JString (js ''Hello world''))"
proof -
  let ?p = "js ''uploads/1''"
  let ?buf = "[0xFF, 0xD8] :: bytes"
  let ?raw = \<open>js ''{"regions":[]}''\<close>
  note th = extract_text_failures_are_generic
  note fields = example_env_fields answering_def failing_def
  have "readFileSync unreadable_env ?p = Inl (Error (js ''ENOENT: no such file''))"
    by (simp add: unreadable_env_def failing_def)
  with th [where env = unreadable_env and path = "?p"
      and err = "Error (js ''ENOENT: no such file'')"]
  have 1: "extract_text unreadable_env (Some ?p) = generic_failure" by simp
  have "readFileSync ocr_down_env ?p = Inr ?buf \<and>
        vision_post ocr_down_env ?buf = Inl (Error (js ''Request failed with status code 415''))"
    by (simp add: ocr_down_env_def fields)
  with th [where env = ocr_down_env and path = "?p" and imageBuffer = "?buf"
      and err = "Error (js ''Request failed with status code 415'')"]
  have 2: "extract_text ocr_down_env (Some ?p) = generic_failure" by simp
  have "of_char CHR ''{'' \<notin> set (js ''Bad Gateway'')" by (simp add: js_def)
  then have "parse_vision example_parse (js ''Bad Gateway'') =
      Inl (Thrown (js ''Unexpected token'') None None)"
    by (simp add: parse_vision_no_brace example_parse_not_json)
  then have "readFileSync ocr_html_env ?p = Inr ?buf \<and>
        vision_post ocr_html_env ?buf = Inr (JString (js ''Bad Gateway'')) \<and>
        toString (JString (js ''Bad Gateway'')) = Inr (js ''Bad Gateway'') \<and>
        parse_vision (JSON_parse ocr_html_env) (js ''Bad Gateway'') =
          Inl (Thrown (js ''Unexpected token'') None None)"
    by (simp add: ocr_html_env_def fields)
  with th [where env = ocr_html_env and path = "?p" and imageBuffer = "?buf"
      and data = "JString (js ''Bad Gateway'')" and rawResponse = "js ''Bad Gateway''"
      and err = "Thrown (js ''Unexpected token'') None None"]
  have 3: "extract_text ocr_html_env (Some ?p) = generic_failure" by simp
  have "readFileSync ocr_empty_object_env ?p = Inr ?buf \<and>
        vision_post ocr_empty_object_env ?buf = Inr (JString (js ''{}'')) \<and>
        toString (JString (js ''{}'')) = Inr (js ''{}'') \<and>
        parse_vision (JSON_parse ocr_empty_object_env) (js ''{}'') = Inr (JObject []) \<and>
        vision_regions (JObject []) = None"
    by (simp add: ocr_empty_object_env_def fields parse_vision_def vision_regions_def
        get_field_def falsy_def)
  with th [where env = ocr_empty_object_env and path = "?p" and imageBuffer = "?buf"
      and data = "JString (js ''{}'')" and rawResponse = "js ''{}''" and visionData = "JObject []"]
  have 4: "extract_text ocr_empty_object_env (Some ?p) = invalid_vision_response" by simp
  have "readFileSync ocr_no_regions_env ?p = Inr ?buf \<and>
        vision_post ocr_no_regions_env ?buf = Inr (JString ?raw) \<and>
        toString (JString ?raw) = Inr ?raw \<and>
        parse_vision (JSON_parse ocr_no_regions_env) ?raw =
          Inr (JObject [(js ''regions'', JArray [])]) \<and>
        vision_regions (JObject [(js ''regions'', JArray [])]) = Some [] \<and>
        extracted_text [] = Inl (Error (js ''No text extracted from the image.''))"
    by (simp add: ocr_no_regions_env_def fields parse_vision_def vision_regions_def
        get_field_def falsy_def isArray_def extracted_text_def trim_def)
  with th [where env = ocr_no_regions_env and path = "?p" and imageBuffer = "?buf"
      and data = "JString ?raw" and rawResponse = "?raw"
      and visionData = "JObject [(js ''regions'', JArray [])]" and regions = "[]"
      and err = "Error (js ''No text extracted from the image.'')"]
  have 5: "extract_text ocr_no_regions_env (Some ?p) = generic_failure" by simp
  have "ocr_stage translator_down_env ?p = Inr (Inr (js ''Hola mundo''))"
    by (rule ocr_stage_example) (simp_all add: translator_down_env_def fields)
  then have "ocr_stage translator_down_env ?p = Inr (Inr (js ''Hola mundo'')) \<and>
        translator_post translator_down_env (js ''Hola mundo'') =
          Inl (Error (js ''Request failed with status code 401''))"
    by (simp add: translator_down_env_def fields)
  with th [where env = translator_down_env and path = "?p"
      and extractedText = "js ''Hola mundo''"
      and err = "Error (js ''Request failed with status code 401'')"]
  have 6: "extract_text translator_down_env (Some ?p) = generic_failure" by simp
  have "of_char CHR ''['' \<notin> set (js ''Service Unavailable'')" by (simp add: js_def)
  then have "translation_of example_parse (JString (js ''Service Unavailable'')) =
          Inl (Error (js ''No JSON found in the response.''))"
    by (simp add: translation_of_JString clean_json_string_no_bracket)
  moreover have "ocr_stage translator_html_env ?p = Inr (Inr (js ''Hola mundo''))"
    by (rule ocr_stage_example) (simp_all add: translator_html_env_def fields)
  ultimately have "ocr_stage translator_html_env ?p = Inr (Inr (js ''Hola mundo'')) \<and>
        translator_post translator_html_env (js ''Hola mundo'') =
          Inr (JString (js ''Service Unavailable'')) \<and>
        translation_of (JSON_parse translator_html_env) (JString (js ''Service Unavailable'')) =
          Inl (Error (js ''No JSON found in the response.''))"
    by (simp add: translator_html_env_def fields)
  with th [where env = translator_html_env and path = "?p"
      and extractedText = "js ''Hola mundo''"
      and tdata = "JString (js ''Service Unavailable'')"
      and err = "Error (js ''No JSON found in the response.'')"]
  have 7: "extract_text translator_html_env (Some ?p) = generic_failure" by simp
  show ?thesis using 1 2 3 4 5 6 7 extract_text_example [of ?p] by blast
qed

end
